theory Spec2Isabelle
  imports Complex_Main
begin

section \<open>Conventions of the embedding\<close>

text \<open>
  The scoring engine (\<^verbatim>\<open>textProcessor.js\<close>, \<^verbatim>\<open>skillMatcher.js\<close>, \<^verbatim>\<open>atsConfig.js\<close>,
  \<^verbatim>\<open>atsScorer.js\<close>) and the job-search orchestrator (\<^verbatim>\<open>jobController\<close>) are
  translated function by function.

  \<^item> A JavaScript string is a \<open>string\<close> of 8-bit code units; \<^verbatim>\<open>toLowerCase\<close> acts on
    \<^verbatim>\<open>A-Z\<close> and white space is the ASCII white space.
  \<^item> A JavaScript number is the rational it denotes (\<open>rat\<close>). The products, quotients
    and sums of the text processor, the skill matcher, the experience check, the
    sub-scores and the quick score are rounded to the nearest IEEE 754 double by \<open>fl\<close>
    (ties to even), and a decimal literal of the source such as \<^verbatim>\<open>0.8\<close> is the double
    nearest to it; \<^verbatim>\<open>Math.round\<close> is \<open>\<lfloor>x + 1/2\<rfloor>\<close>. The weight tables hold the decimals
    as written and the weighted sum of the relevance score is taken exactly. Infinities
    and \<^verbatim>\<open>NaN\<close> are outside the model.
  \<^item> A property that may be \<^verbatim>\<open>undefined\<close> or \<^verbatim>\<open>null\<close> is an \<open>option\<close>; the
    truthiness tests of the source (\<^verbatim>\<open>!x\<close>, \<^verbatim>\<open>x || d\<close>) are written out: an empty
    string and the number 0 are falsy, an array (also an empty one) is truthy.
  \<^item> A JavaScript \<^verbatim>\<open>Set\<close> is the list of its elements in insertion order, without
    duplicates; \<^verbatim>\<open>Array.from\<close> of it is that list.
  \<^item> An object literal used as a lookup table is an association list over its own keys
    in declaration order. The two lower-case names every JavaScript object inherits
    (\<^verbatim>\<open>constructor\<close>, \<^verbatim>\<open>__proto__\<close>) are outside the model when used as a skill or as a
    role type.
\<close>

subsection \<open>JavaScript sets in insertion order\<close>

definition setAdd :: "'a list \<Rightarrow> 'a \<Rightarrow> 'a list" where
  "setAdd s x = (if x \<in> set s then s else s @ [x])"

definition newSet :: "'a list \<Rightarrow> 'a list" where
  "newSet xs = foldl setAdd [] xs"

subsection \<open>Strings\<close>

definition upperLetters :: string where
  "upperLetters = ''ABCDEFGHIJKLMNOPQRSTUVWXYZ''"

definition lowerLetters :: string where
  "lowerLetters = ''abcdefghijklmnopqrstuvwxyz''"

definition digitChars :: string where
  "digitChars = ''0123456789''"

definition toLowerChar :: "char \<Rightarrow> char" where
  "toLowerChar c = (case map_of (zip upperLetters lowerLetters) c of Some d \<Rightarrow> d | None \<Rightarrow> c)"

definition toLowerCase :: "string \<Rightarrow> string" where
  "toLowerCase s = map toLowerChar s"

definition isSpace :: "char \<Rightarrow> bool" where
  "isSpace c = (c \<in> set [CHR 0x09, CHR 0x0A, CHR 0x0B, CHR 0x0C, CHR 0x0D, CHR 0x20])"

definition trim :: "string \<Rightarrow> string" where
  "trim s = rev (dropWhile isSpace (rev (dropWhile isSpace s)))"

text \<open>\<^verbatim>\<open>xs.join(sep)\<close>\<close>

fun joinWith :: "string \<Rightarrow> string list \<Rightarrow> string" where
  "joinWith sep [] = []"
| "joinWith sep [x] = x"
| "joinWith sep (x # y # ys) = x @ sep @ joinWith sep (y # ys)"

text \<open>\<^verbatim>\<open>hay.includes(needle)\<close>\<close>

fun strIncludes :: "string \<Rightarrow> string \<Rightarrow> bool" where
  "strIncludes [] needle = (needle = [])"
| "strIncludes (c # cs) needle = (take (length needle) (c # cs) = needle \<or> strIncludes cs needle)"

subsection \<open>Double precision\<close>

text \<open>
  A finite double is \<open>m \<times> 2\<^sup>k\<close> with an integer \<open>m\<close> of at most 53 bits and
  \<open>k \<ge> -1074\<close>. \<open>bitlen n\<close> is the number of binary digits of \<open>n\<close>, \<open>binade x\<close> the
  exponent \<open>e\<close> with \<open>2\<^sup>e \<le> x < 2\<^sup>e\<^sup>+\<^sup>1\<close> for a positive \<open>x\<close>, and \<open>fl x\<close> the double
  nearest to \<open>x\<close>, the one with the even \<open>m\<close> when two are equally near.
\<close>

function bitlen :: "int \<Rightarrow> nat" where
  "bitlen n = (if n \<le> 0 then 0 else Suc (bitlen (n div 2)))"
  by pat_completeness auto
termination
  by (relation "measure nat") auto

declare bitlen.simps [simp del]

definition pow2 :: "int \<Rightarrow> rat" where
  "pow2 k = (if 0 \<le> k then 2 ^ nat k else 1 / 2 ^ nat (- k))"

definition binade :: "rat \<Rightarrow> int" where
  "binade x =
    (if 1 \<le> x then int (bitlen \<lfloor>x\<rfloor>) - 1
     else let j = int (bitlen \<lfloor>1 / x\<rfloor>) - 1
          in if x = pow2 (- j) then - j else - j - 1)"

definition roundHalfEven :: "rat \<Rightarrow> int" where
  "roundHalfEven q =
    (let f = \<lfloor>q\<rfloor>; d = q - of_int f
     in if d < 1 / 2 then f
        else if 1 / 2 < d then f + 1
        else if even f then f else f + 1)"

definition flPos :: "rat \<Rightarrow> rat" where
  "flPos x =
    (let u = pow2 (max (binade x - 52) (- 1074)) in of_int (roundHalfEven (x / u)) * u)"

definition fl :: "rat \<Rightarrow> rat" where
  "fl x = (if x = 0 then 0 else if x < 0 then - flPos (- x) else flPos x)"

text \<open>The operators \<^verbatim>\<open>*\<close>, \<^verbatim>\<open>/\<close> and \<^verbatim>\<open>+\<close> on numbers.\<close>

definition jsMul :: "rat \<Rightarrow> rat \<Rightarrow> rat" where
  "jsMul a b = fl (a * b)"

definition jsDiv :: "rat \<Rightarrow> rat \<Rightarrow> rat" where
  "jsDiv a b = fl (a / b)"

definition jsAdd :: "rat \<Rightarrow> rat \<Rightarrow> rat" where
  "jsAdd a b = fl (a + b)"

text \<open>\<^verbatim>\<open>Math.round(x * 100) / 100\<close>\<close>

definition mathRound :: "rat \<Rightarrow> int" where
  "mathRound x = \<lfloor>x + 1 / 2\<rfloor>"

definition round2 :: "rat \<Rightarrow> rat" where
  "round2 x = jsDiv (of_int (mathRound (jsMul x 100))) 100"

section \<open>Text processor\<close>

subsection \<open>Cleaning and keywords\<close>

text \<open>
  \<^verbatim>\<open>cleanText\<close>: lower case, every character outside \<^verbatim>\<open>[a-z0-9\s+#.]\<close> becomes a
  blank, every run of white space becomes one blank, and the ends are trimmed.
\<close>

definition allowedChar :: "char \<Rightarrow> bool" where
  "allowedChar c =
    (c \<in> set lowerLetters \<or> c \<in> set digitChars \<or> isSpace c \<or> c \<in> set ''+#.'')"

fun collapseSpaces :: "bool \<Rightarrow> string \<Rightarrow> string" where
  "collapseSpaces inRun [] = []"
| "collapseSpaces inRun (c # cs) =
    (if isSpace c
     then (if inRun then collapseSpaces True cs else CHR '' '' # collapseSpaces True cs)
     else c # collapseSpaces False cs)"

definition cleanText :: "string \<Rightarrow> string" where
  "cleanText text =
    (if text = [] then []
     else let lowered = toLowerCase text;
              blanked = map (\<lambda>c. if allowedChar c then c else CHR '' '') lowered
          in trim (collapseSpaces False blanked))"

text \<open>\<^verbatim>\<open>s.split(' ')\<close>: the empty string gives one empty piece.\<close>

fun splitOn :: "char \<Rightarrow> string \<Rightarrow> string list" where
  "splitOn sep [] = [] # []"
| "splitOn sep (c # cs) =
    (if c = sep then [] # splitOn sep cs
     else (case splitOn sep cs of
             [] \<Rightarrow> [c] # []
           | w # ws \<Rightarrow> (c # w) # ws))"

definition STOPWORDS :: "string list" where
  "STOPWORDS =
    [
     ''the'', ''a'', ''an'', ''and'', ''or'', ''but'', ''in'', ''on'', ''at'', ''to'',
     ''for'', ''of'', ''with'', ''by'', ''from'', ''as'', ''is'', ''was'', ''are'',
     ''were'', ''been'', ''be'', ''have'', ''has'', ''had'', ''do'', ''does'', ''did'',
     ''will'', ''would'', ''should'', ''could'', ''may'', ''might'', ''must'', ''can'',
     ''this'', ''that'', ''these'', ''those'', ''i'', ''you'', ''he'', ''she'', ''it'',
     ''we'', ''they'', ''what'', ''which'', ''who'', ''when'', ''where'', ''why'', ''how'',
     ''all'', ''each'', ''every'', ''both'', ''few'', ''more'', ''most'', ''other'',
     ''some'', ''such'', ''no'', ''not'', ''only'', ''own'', ''same'', ''so'', ''than'',
     ''too'', ''very'', ''just'', ''also'', ''now'', ''here'', ''there'', ''then'',
     ''once'', ''any'', ''about'', ''into'', ''through'', ''during'', ''before'',
     ''after'', ''above'', ''below'', ''between'', ''under'', ''again'', ''further'',
     ''while'', ''our'', ''your'', ''their'', ''its'', ''my'', ''his'', ''her'', ''am'',
     ''being'', ''having'', ''doing'', ''work'', ''working'', ''experience'', ''using'',
     ''used'', ''including'', ''include'', ''includes'']"

definition extractKeywordsMin :: "string \<Rightarrow> nat \<Rightarrow> string list" where
  "extractKeywordsMin text minLength =
    (if text = [] then []
     else filter (\<lambda>word. length word \<ge> minLength \<and> word \<notin> set STOPWORDS)
            (splitOn CHR '' '' (cleanText text)))"

text \<open>Every call in the source leaves \<^verbatim>\<open>minLength\<close> at its default 2.\<close>

definition extractKeywords :: "string \<Rightarrow> string list" where
  "extractKeywords text = extractKeywordsMin text 2"

text \<open>The counting loops \<^verbatim>\<open>for (const keyword of ks) if (other.has(keyword)) n++\<close>.\<close>

fun countPresent :: "string list \<Rightarrow> string list \<Rightarrow> nat" where
  "countPresent other [] = 0"
| "countPresent other (keyword # ks) =
    (if keyword \<in> set other then Suc (countPresent other ks) else countPresent other ks)"

definition calculateKeywordOverlap :: "string \<Rightarrow> string \<Rightarrow> rat" where
  "calculateKeywordOverlap text1 text2 =
    (let keywords1 = newSet (extractKeywords text1);
         keywords2 = newSet (extractKeywords text2)
     in if length keywords2 = 0 then 0
        else jsMul (jsDiv (rat_of_nat (countPresent keywords1 keywords2))
                      (rat_of_nat (length keywords2))) 100)"

definition calculateTextSimilarity :: "string \<Rightarrow> string \<Rightarrow> rat" where
  "calculateTextSimilarity text1 text2 =
    (if text1 = [] \<or> text2 = [] then 0
     else let keywords1 = newSet (extractKeywords text1);
              keywords2 = newSet (extractKeywords text2)
          in if length keywords1 = 0 \<or> length keywords2 = 0 then 0
             else let intersection = countPresent keywords2 keywords1;
                      union = length (newSet (keywords1 @ keywords2))
                  in if union > 0
                     then jsMul (jsDiv (rat_of_nat intersection) (rat_of_nat union)) 100
                     else 0)"

subsection \<open>Technical terms\<close>

text \<open>
  The four global regular expressions of \<^verbatim>\<open>extractTechnicalTerms\<close>. A matcher gets the
  character in front of the current position (if any) and the rest of the text, and returns
  the length of the match that starts here. \<^verbatim>\<open>\w\<close> is \<^verbatim>\<open>[A-Za-z0-9_]\<close>, and
  \<^verbatim>\<open>\b\<close> holds between two positions of which exactly one is a \<^verbatim>\<open>\w\<close>.
\<close>

definition isWordChar :: "char \<Rightarrow> bool" where
  "isWordChar c =
    (c \<in> set upperLetters \<or> c \<in> set lowerLetters \<or> c \<in> set digitChars \<or> c = CHR ''_'')"

definition isWordOpt :: "char option \<Rightarrow> bool" where
  "isWordOpt co = (case co of None \<Rightarrow> False | Some c \<Rightarrow> isWordChar c)"

definition wordBoundary :: "char option \<Rightarrow> char option \<Rightarrow> bool" where
  "wordBoundary prev nxt = (isWordOpt prev \<noteq> isWordOpt nxt)"

definition headOpt :: "string \<Rightarrow> char option" where
  "headOpt s = (case s of [] \<Rightarrow> None | c # _ \<Rightarrow> Some c)"

text \<open>
  \<^verbatim>\<open>/\b[A-Z]{2,}\b/\<close>: the greedy run of capitals must be followed by a boundary;
  a shorter run ends between two capitals, where there is none.
\<close>

definition acronymAt :: "char option \<Rightarrow> string \<Rightarrow> nat option" where
  "acronymAt prev rest =
    (let run = takeWhile (\<lambda>c. c \<in> set upperLetters) rest;
         nxt = drop (length run) rest
     in if length run \<ge> 2 \<and> wordBoundary prev (headOpt rest)
           \<and> wordBoundary (Some (last run)) (headOpt nxt)
        then Some (length run) else None)"

text \<open>
  \<^verbatim>\<open>/\b\w+\.\w+\b/\<close>: the first \<^verbatim>\<open>\w+\<close> must reach the dot, so it is the whole run;
  the second one is greedy and its end is a boundary.
\<close>

definition versionedAt :: "char option \<Rightarrow> string \<Rightarrow> nat option" where
  "versionedAt prev rest =
    (let w1 = takeWhile isWordChar rest;
         after1 = drop (length w1) rest
     in if w1 \<noteq> [] \<and> wordBoundary prev (headOpt rest) \<and> headOpt after1 = Some CHR ''.''
        then (let w2 = takeWhile isWordChar (tl after1)
              in if w2 \<noteq> [] then Some (length w1 + 1 + length w2) else None)
        else None)"

text \<open>
  \<^verbatim>\<open>/\b\w+\+\+\b/\<close> and \<^verbatim>\<open>/\b\w+#\b/\<close>: the closing \<^verbatim>\<open>\b\<close> comes behind a
  character that is not a \<^verbatim>\<open>\w\<close>, so a \<^verbatim>\<open>\w\<close> has to follow.
\<close>

definition suffixedAt :: "string \<Rightarrow> char option \<Rightarrow> string \<Rightarrow> nat option" where
  "suffixedAt suffix prev rest =
    (let w1 = takeWhile isWordChar rest;
         after1 = drop (length w1) rest;
         after2 = drop (length suffix) after1
     in if w1 \<noteq> [] \<and> wordBoundary prev (headOpt rest)
           \<and> take (length suffix) after1 = suffix
           \<and> wordBoundary (Some (last suffix)) (headOpt after2)
        then Some (length w1 + length suffix) else None)"

definition cppAt :: "char option \<Rightarrow> string \<Rightarrow> nat option" where
  "cppAt = suffixedAt ''++''"

definition csharpAt :: "char option \<Rightarrow> string \<Rightarrow> nat option" where
  "csharpAt = suffixedAt ''#''"

text \<open>
  The loop \<^verbatim>\<open>while ((match = pattern.exec(text)) !== null)\<close> of a global pattern: the
  search resumes behind each match (one character further behind an empty one).
\<close>

function execAll :: "(char option \<Rightarrow> string \<Rightarrow> nat option) \<Rightarrow> char option \<Rightarrow> string
    \<Rightarrow> string list" where
  "execAll matcher prev [] = []"
| "execAll matcher prev (c # cs) =
    (case matcher prev (c # cs) of
       None \<Rightarrow> execAll matcher (Some c) cs
     | Some n \<Rightarrow>
         (let m = take n (c # cs); k = max n 1
          in m # execAll matcher (Some (last (take k (c # cs)))) (drop k (c # cs))))"
  by pat_completeness auto
termination
  by (relation "measure (\<lambda>(matcher, prev, rest). length rest)") auto

definition extractTechnicalTerms :: "string \<Rightarrow> string list" where
  "extractTechnicalTerms text =
    (if text = [] then []
     else let terms1 = foldl setAdd [] (map toLowerCase (execAll acronymAt None text));
              terms2 = foldl setAdd terms1 (map toLowerCase (execAll versionedAt None text));
              terms3 = foldl setAdd terms2 (map toLowerCase (execAll cppAt None text));
              terms4 = foldl setAdd terms3 (map toLowerCase (execAll csharpAt None text))
          in terms4)"

subsection \<open>Skill normalisation\<close>

definition SKILL_MAP :: "(string \<times> string) list" where
  "SKILL_MAP =
    [(''js'', ''javascript''),
     (''ts'', ''typescript''),
     (''py'', ''python''),
     (''k8s'', ''kubernetes''),
     (''aws'', ''amazon web services''),
     (''gcp'', ''google cloud platform''),
     (''ml'', ''machine learning''),
     (''ai'', ''artificial intelligence''),
     (''ci/cd'', ''continuous integration continuous deployment''),
     (''api'', ''application programming interface'')]"

definition normalizeSkill :: "string \<Rightarrow> string" where
  "normalizeSkill skill =
    (if skill = [] then []
     else let normalized = trim (toLowerCase skill)
          in (case map_of SKILL_MAP normalized of Some full \<Rightarrow> full | None \<Rightarrow> normalized))"

section \<open>Skill matcher\<close>

definition skillSynonyms :: "(string \<times> string list) list" where
  "skillSynonyms =
    [(''javascript'', [''js'', ''ecmascript'', ''node.js'', ''nodejs'']),
     (''typescript'', [''ts'']),
     (''python'', [''py'']),
     (''kubernetes'', [''k8s'']),
     (''docker'', [''containerization'', ''containers'']),
     (''aws'', [''amazon web services'', ''amazon cloud'']),
     (''gcp'', [''google cloud platform'', ''google cloud'']),
     (''azure'', [''microsoft azure'']),
     (''postgresql'', [''postgres'', ''psql'']),
     (''mongodb'', [''mongo'']),
     (''react'', [''reactjs'', ''react.js'']),
     (''angular'', [''angularjs'', ''angular.js'']),
     (''vue'', [''vuejs'', ''vue.js'']),
     (''machine learning'', [''ml'', ''deep learning'', ''neural networks'']),
     (''artificial intelligence'', [''ai'']),
     (''continuous integration'', [''ci'', ''ci/cd'']),
     (''continuous deployment'', [''cd'', ''ci/cd'']),
     (''node'', [''nodejs'', ''node.js'']),
     (''express'', [''expressjs'', ''express.js'']),
     (''next'', [''nextjs'', ''next.js'']),
     (''mysql'', [''sql'']),
     (''sql server'', [''mssql'']),
     (''restful'', [''rest'', ''rest api'']),
     (''graphql'', [''gql''])]"

text \<open>
  \<^verbatim>\<open>normalizeSkills\<close>: the loop over the skills, with the set built so far as accumulator.
  A falsy skill (the empty string) is skipped.
\<close>

fun normalizeSkillsFrom :: "string list \<Rightarrow> string list \<Rightarrow> string list" where
  "normalizeSkillsFrom normalized [] = normalized"
| "normalizeSkillsFrom normalized (skill # skills) =
    (if skill = [] then normalizeSkillsFrom normalized skills
     else let normSkill = normalizeSkill skill;
              withSkill = setAdd normalized normSkill;
              withSynonyms = (case map_of skillSynonyms normSkill of
                                None \<Rightarrow> withSkill
                              | Some synonyms \<Rightarrow> foldl setAdd withSkill synonyms)
          in normalizeSkillsFrom withSynonyms skills)"

definition normalizeSkills :: "string list \<Rightarrow> string list" where
  "normalizeSkills skills = normalizeSkillsFrom [] skills"

record MatchResult =
  matched :: "string list"
  missing :: "string list"
  matchPct :: rat

text \<open>The loop \<^verbatim>\<open>for (const skill of normJob)\<close> with both sets as accumulators.\<close>

fun splitJobSkills :: "string list \<Rightarrow> string list \<Rightarrow> string list \<Rightarrow> string list
    \<Rightarrow> string list \<times> string list" where
  "splitJobSkills normResume mat mis [] = (mat, mis)"
| "splitJobSkills normResume mat mis (skill # rest) =
    (if skill \<in> set normResume
     then splitJobSkills normResume (setAdd mat skill) mis rest
     else splitJobSkills normResume mat (setAdd mis skill) rest)"

definition matchSkillsWithSynonyms :: "string list option \<Rightarrow> string list option \<Rightarrow> MatchResult" where
  "matchSkillsWithSynonyms resumeSkills jobSkills =
    (if resumeSkills = None \<or> jobSkills = None \<or> resumeSkills = Some [] \<or> jobSkills = Some []
     then \<lparr>matched = [],
           missing = newSet (case jobSkills of None \<Rightarrow> [] | Some js \<Rightarrow> js),
           matchPct = 0\<rparr>
     else let normResume = normalizeSkills (the resumeSkills);
              normJob = normalizeSkills (the jobSkills);
              (mat, mis) = splitJobSkills normResume [] [] normJob;
              pct = (if length normJob > 0
                     then jsDiv (rat_of_nat (length mat)) (rat_of_nat (length normJob)) else 0)
          in \<lparr>matched = mat, missing = mis, matchPct = pct\<rparr>)"

record SkillAnalysis =
  matchedRequired :: "string list"
  matchedPreferred :: "string list"
  missingRequired :: "string list"
  missingPreferred :: "string list"
  requiredMatchPercentage :: rat
  preferredMatchPercentage :: rat
  overallSkillScore :: rat
  totalMatched :: nat
  totalMissing :: nat

definition matchSkills :: "string list option \<Rightarrow> string list option \<Rightarrow> string list option
    \<Rightarrow> SkillAnalysis" where
  "matchSkills resumeSkills requiredSkills preferredSkills =
    (let req = matchSkillsWithSynonyms resumeSkills requiredSkills;
         pref = matchSkillsWithSynonyms resumeSkills preferredSkills;
         requiredPct = jsMul (matchPct req) 100;
         preferredPct = jsMul (matchPct pref) 100;
         overallScore = jsAdd (jsMul requiredPct (fl (7 / 10))) (jsMul preferredPct (fl (3 / 10)))
     in \<lparr>matchedRequired = matched req,
         matchedPreferred = matched pref,
         missingRequired = missing req,
         missingPreferred = missing pref,
         requiredMatchPercentage = round2 requiredPct,
         preferredMatchPercentage = round2 preferredPct,
         overallSkillScore = round2 overallScore,
         totalMatched = length (matched req) + length (matched pref),
         totalMissing = length (missing req) + length (missing pref)\<rparr>)"

definition techKeywords :: "string list" where
  "techKeywords =
    [
     ''python'', ''java'', ''javascript'', ''typescript'', ''c++'', ''c#'', ''c'',
     ''ruby'', ''php'', ''go'', ''golang'', ''rust'', ''swift'', ''kotlin'', ''scala'',
     ''perl'', ''r'', ''matlab'', ''julia'', ''dart'', ''elixir'', ''haskell'',
     ''clojure'', ''objective-c'', ''groovy'', ''lua'', ''shell'', ''bash'',
     ''powershell'', ''vba'', ''cobol'', ''fortran'', ''react'', ''reactjs'', ''react.js'',
     ''angular'', ''angularjs'', ''vue'', ''vuejs'', ''vue.js'', ''svelte'', ''next.js'',
     ''nextjs'', ''nuxt'', ''gatsby'', ''ember'', ''backbone'', ''jquery'', ''bootstrap'',
     ''tailwind'', ''material-ui'', ''mui'', ''ant design'', ''chakra ui'', ''sass'',
     ''scss'', ''less'', ''styled-components'', ''emotion'', ''redux'', ''mobx'',
     ''recoil'', ''zustand'', ''webpack'', ''vite'', ''rollup'', ''parcel'', ''babel'',
     ''eslint'', ''prettier'', ''jest'', ''cypress'', ''playwright'', ''selenium'',
     ''webdriver'', ''storybook'', ''node'', ''nodejs'', ''node.js'', ''express'',
     ''expressjs'', ''nestjs'', ''fastify'', ''koa'', ''django'', ''flask'', ''fastapi'',
     ''pyramid'', ''tornado'', ''spring'', ''spring boot'', ''springboot'', ''hibernate'',
     ''struts'', ''jsf'', ''play'', ''laravel'', ''symfony'', ''codeigniter'', ''yii'',
     ''rails'', ''ruby on rails'', ''sinatra'', ''asp.net'', ''.net'', ''dotnet'',
     ''.net core'', ''entity framework'', ''gin'', ''echo'', ''beego'', ''fiber'',
     ''actix'', ''rocket'', ''warp'', ''react native'', ''flutter'', ''ionic'',
     ''xamarin'', ''cordova'', ''phonegap'', ''android'', ''ios'', ''swift ui'',
     ''jetpack compose'', ''kotlin multiplatform'', ''sql'', ''mysql'', ''postgresql'',
     ''postgres'', ''oracle'', ''sql server'', ''mssql'', ''sqlite'', ''mariadb'', ''db2'',
     ''teradata'', ''snowflake'', ''redshift'', ''bigquery'', ''aurora'', ''cockroachdb'',
     ''nosql'', ''mongodb'', ''cassandra'', ''couchdb'', ''dynamodb'', ''neo4j'',
     ''redis'', ''memcached'', ''elasticsearch'', ''solr'', ''firebase'', ''firestore'',
     ''realm'', ''couchbase'', ''hbase'', ''riak'', ''aws'', ''amazon web services'',
     ''ec2'', ''s3'', ''lambda'', ''cloudformation'', ''cloudfront'', ''route53'', ''rds'',
     ''sqs'', ''sns'', ''kinesis'', ''azure'', ''microsoft azure'', ''azure devops'',
     ''gcp'', ''google cloud'', ''google cloud platform'', ''heroku'', ''digitalocean'',
     ''linode'', ''vultr'', ''cloudflare'', ''vercel'', ''netlify'', ''render'',
     ''docker'', ''kubernetes'', ''k8s'', ''openshift'', ''rancher'', ''helm'', ''istio'',
     ''jenkins'', ''gitlab ci'', ''github actions'', ''circleci'', ''travis ci'',
     ''teamcity'', ''bamboo'', ''azure pipelines'', ''argo cd'', ''flux'', ''spinnaker'',
     ''terraform'', ''ansible'', ''puppet'', ''chef'', ''saltstack'', ''vagrant'',
     ''packer'', ''consul'', ''vault'', ''prometheus'', ''grafana'', ''datadog'',
     ''new relic'', ''splunk'', ''elk stack'', ''logstash'', ''kibana'', ''fluentd'',
     ''git'', ''github'', ''gitlab'', ''bitbucket'', ''svn'', ''mercurial'', ''perforce'',
     ''git flow'', ''trunk based development'', ''junit'', ''testng'', ''mockito'',
     ''pytest'', ''unittest'', ''nose'', ''jest'', ''mocha'', ''jasmine'', ''karma'',
     ''protractor'', ''cucumber'', ''behave'', ''rspec'', ''xunit'', ''nunit'', ''mstest'',
     ''postman'', ''insomnia'', ''jmeter'', ''gatling'', ''locust'', ''k6'', ''kafka'',
     ''rabbitmq'', ''activemq'', ''zeromq'', ''nats'', ''pulsar'', ''mqtt'',
     ''redis pub/sub'', ''amazon sqs'', ''google pub/sub'', ''azure service bus'',
     ''rest'', ''restful'', ''graphql'', ''grpc'', ''soap'', ''websocket'', ''http'',
     ''https'', ''tcp'', ''udp'', ''oauth'', ''jwt'', ''saml'', ''openid'',
     ''microservices'', ''monolith'', ''serverless'', ''event driven'', ''cqrs'',
     ''event sourcing'', ''domain driven design'', ''ddd'', ''clean architecture'',
     ''hexagonal architecture'', ''mvc'', ''mvvm'', ''mvp'', ''soa'', ''rest api'',
     ''machine learning'', ''ml'', ''deep learning'', ''neural networks'', ''cnn'',
     ''rnn'', ''lstm'', ''gru'', ''transformer'', ''bert'', ''gpt'', ''llm'', ''nlp'',
     ''computer vision'', ''opencv'', ''tensorflow'', ''pytorch'', ''keras'',
     ''scikit-learn'', ''sklearn'', ''xgboost'', ''lightgbm'', ''catboost'', ''pandas'',
     ''numpy'', ''scipy'', ''matplotlib'', ''seaborn'', ''plotly'', ''hugging face'',
     ''langchain'', ''llama'', ''stable diffusion'', ''yolo'', ''hadoop'', ''spark'',
     ''pyspark'', ''hive'', ''pig'', ''sqoop'', ''flume'', ''airflow'', ''luigi'',
     ''prefect'', ''dagster'', ''dbt'', ''databricks'', ''presto'', ''trino'', ''flink'',
     ''storm'', ''samza'', ''beam'', ''dataflow'', ''linux'', ''unix'', ''ubuntu'',
     ''centos'', ''rhel'', ''debian'', ''fedora'', ''windows'', ''macos'', ''vim'',
     ''emacs'', ''vscode'', ''intellij'', ''eclipse'', ''netbeans'', ''pycharm'',
     ''webstorm'', ''agile'', ''scrum'', ''kanban'', ''lean'', ''devops'', ''ci/cd'',
     ''tdd'', ''test driven development'', ''bdd'', ''behavior driven development'',
     ''pair programming'', ''code review'', ''solid'', ''design patterns'',
     ''webscraping'', ''web scraping'', ''beautifulsoup'', ''scrapy'', ''nginx'',
     ''apache'', ''tomcat'', ''iis'', ''load balancing'', ''caching'', ''cdn'', ''oauth2'',
     ''authentication'', ''authorization'', ''encryption'', ''ssl'', ''tls'', ''vpn'',
     ''api gateway'', ''service mesh'', ''etl'', ''data warehouse'', ''data lake'',
     ''olap'', ''oltp'', ''indexing'', ''sharding'', ''replication'', ''partitioning'',
     ''normalization'']"

definition extractSkillsFromText :: "string \<Rightarrow> string list" where
  "extractSkillsFromText text =
    (if text = [] then []
     else let technicalTerms = extractTechnicalTerms text;
              keywords = extractKeywords text;
              allTerms = newSet (technicalTerms @ keywords)
          in filter (\<lambda>term. toLowerCase term \<in> set techKeywords) allTerms)"

section \<open>Scoring configuration\<close>

text \<open>The six weights of a role; the fields are the source's \<^verbatim>\<open>skills\<close>, \<^verbatim>\<open>experience\<close>,
  \<^verbatim>\<open>projects\<close>, \<^verbatim>\<open>keywords\<close>, \<^verbatim>\<open>summary\<close> and \<^verbatim>\<open>education\<close>.\<close>

record Weights =
  wSkills :: rat
  wExperience :: rat
  wProjects :: rat
  wKeywords :: rat
  wSummary :: rat
  wEducation :: rat

definition SOFTWARE_ENGINEER :: Weights where
  "SOFTWARE_ENGINEER =
    \<lparr>wSkills = 35 / 100, wExperience = 30 / 100, wProjects = 15 / 100,
     wKeywords = 10 / 100, wSummary = 5 / 100, wEducation = 5 / 100\<rparr>"

definition FRESHER_INTERN :: Weights where
  "FRESHER_INTERN =
    \<lparr>wSkills = 30 / 100, wExperience = 5 / 100, wProjects = 25 / 100,
     wKeywords = 10 / 100, wSummary = 10 / 100, wEducation = 20 / 100\<rparr>"

definition MANAGER_LEAD :: Weights where
  "MANAGER_LEAD =
    \<lparr>wSkills = 20 / 100, wExperience = 40 / 100, wProjects = 0,
     wKeywords = 20 / 100, wSummary = 10 / 100, wEducation = 10 / 100\<rparr>"

definition DEFAULT :: Weights where
  "DEFAULT =
    \<lparr>wSkills = 35 / 100, wExperience = 30 / 100, wProjects = 15 / 100,
     wKeywords = 10 / 100, wSummary = 5 / 100, wEducation = 5 / 100\<rparr>"

definition weightsMap :: "(string \<times> Weights) list" where
  "weightsMap =
    [(''software_engineer'', SOFTWARE_ENGINEER),
     (''developer'', SOFTWARE_ENGINEER),
     (''engineer'', SOFTWARE_ENGINEER),
     (''fresher'', FRESHER_INTERN),
     (''intern'', FRESHER_INTERN),
     (''entry_level'', FRESHER_INTERN),
     (''manager'', MANAGER_LEAD),
     (''lead'', MANAGER_LEAD),
     (''senior'', SOFTWARE_ENGINEER),
     (''default'', DEFAULT)]"

definition getWeights :: "string option \<Rightarrow> Weights" where
  "getWeights role =
    (case role of
       None \<Rightarrow> DEFAULT
     | Some r \<Rightarrow> (case map_of weightsMap (toLowerCase r) of None \<Rightarrow> DEFAULT | Some w \<Rightarrow> w))"

definition MIN_EXPERIENCE_MATCH_RATIO :: rat where
  "MIN_EXPERIENCE_MATCH_RATIO = fl (8 / 10)"

definition WORK_AUTH_KEYWORDS :: "string list" where
  "WORK_AUTH_KEYWORDS =
    [''citizen'', ''authorized'', ''visa'', ''green card'',
     ''work permit'', ''eligible to work'', ''authorized to work'']"

definition DEGREE_LEVELS :: "(string \<times> nat) list" where
  "DEGREE_LEVELS =
    [(''high school'', 1),
     (''diploma'', 2),
     (''associate'', 2),
     (''bachelor'', 3),
     (''bachelors'', 3),
     (''b.tech'', 3),
     (''b.e'', 3),
     (''bsc'', 3),
     (''bca'', 3),
     (''master'', 4),
     (''masters'', 4),
     (''m.tech'', 4),
     (''msc'', 4),
     (''mca'', 4),
     (''mba'', 4),
     (''phd'', 5),
     (''doctorate'', 5)]"

section \<open>Relevance scorer\<close>

subsection \<open>Inputs and results\<close>

datatype EducationEntry = EduText string | EduObject "string option"

record Resume =
  skills :: "string list option"
  workExperience :: "string list option"
  projects :: "string list option"
  summary :: "string option"
  yearsOfExperience :: "rat option"
  highestDegree :: "string option"
  education :: "EducationEntry list option"
  workAuthorization :: "string option"
  certifications :: "string list option"

record Job =
  description :: "string option"
  jobDescription :: "string option"
  requiredSkills :: "string list option"
  preferredSkills :: "string list option"
  minExperience :: "rat option"
  maxExperience :: "rat option"
  requiredEducation :: "string option"
  roleType :: "string option"

record HardFilterResult =
  passed :: bool
  locationMatch :: bool
  workAuthorizationMatch :: bool
  experienceMatch :: bool
  educationMatch :: bool
  failureReasons :: "string list"

record RelevanceScore =
  skillsScore :: rat
  experienceScore :: rat
  projectsScore :: rat
  keywordsScore :: rat
  summaryScore :: rat
  educationScore :: rat
  weightedTotal :: rat
  weightsUsed :: Weights

record AnalysisResult =
  hardFilters :: HardFilterResult
  relevanceScore :: "RelevanceScore option"
  overallMatchPercentage :: rat
  matchedSkills :: "string list"
  missingSkills :: "string list"
  skillAnalysis :: SkillAnalysis
  feedback :: string
  recommendations :: "string list"
  analysisTimestamp :: string
  resultRoleType :: string

record QuickScore =
  score :: rat
  quickMatchedSkills :: "string list"
  quickMissingSkills :: "string list"
  skillMatchPercentage :: rat
  keywordMatchPercentage :: rat

text \<open>
  What the scorer takes from the JavaScript runtime: the printing of a number inside a
  template string and \<^verbatim>\<open>Number.prototype.toFixed(0)\<close>.
\<close>

record Runtime =
  numToString :: "rat \<Rightarrow> string"
  toFixed0 :: "rat \<Rightarrow> string"

subsection \<open>Truthiness\<close>

text \<open>\<^verbatim>\<open>s || ''\<close>, \<^verbatim>\<open>!s\<close> for a string, \<^verbatim>\<open>n || 0\<close>, \<^verbatim>\<open>n || 1\<close> and
  \<^verbatim>\<open>xs || []\<close>.\<close>

definition orEmpty :: "string option \<Rightarrow> string" where
  "orEmpty s = (case s of None \<Rightarrow> [] | Some t \<Rightarrow> t)"

definition falsyStr :: "string option \<Rightarrow> bool" where
  "falsyStr s = (s = None \<or> s = Some [])"

definition orZero :: "rat option \<Rightarrow> rat" where
  "orZero n = (case n of None \<Rightarrow> 0 | Some x \<Rightarrow> x)"

definition orOne :: "rat option \<Rightarrow> rat" where
  "orOne n = (case n of None \<Rightarrow> 1 | Some x \<Rightarrow> if x = 0 then 1 else x)"

definition orNil :: "'a list option \<Rightarrow> 'a list" where
  "orNil xs = (case xs of None \<Rightarrow> [] | Some ys \<Rightarrow> ys)"

text \<open>\<^verbatim>\<open>jobDescription.description || jobDescription.jobDescription || ''\<close>\<close>

definition jobText :: "Job \<Rightarrow> string" where
  "jobText job =
    (if \<not> falsyStr (description job) then orEmpty (description job)
     else orEmpty (jobDescription job))"

subsection \<open>Stage 1: hard filters\<close>

definition checkWorkAuthorization :: "string option \<Rightarrow> string \<Rightarrow> bool" where
  "checkWorkAuthorization resumeWorkAuth jobDescriptionText =
    (let jobRequiresAuth =
           list_ex (\<lambda>keyword. strIncludes (toLowerCase jobDescriptionText) keyword) WORK_AUTH_KEYWORDS
     in if \<not> jobRequiresAuth then True
        else if falsyStr resumeWorkAuth then False
        else list_ex (\<lambda>keyword. strIncludes (toLowerCase (orEmpty resumeWorkAuth)) keyword)
               WORK_AUTH_KEYWORDS)"

definition checkExperience :: "rat \<Rightarrow> rat \<Rightarrow> rat option \<Rightarrow> bool" where
  "checkExperience resumeExperience minRequired maxRequired =
    (if minRequired \<le> 1 then True
     else let minThreshold = jsMul minRequired MIN_EXPERIENCE_MATCH_RATIO
          in if resumeExperience < minThreshold then False else True)"

text \<open>The first entry of the degree table contained in the text (\<^verbatim>\<open>break\<close> at the first hit).\<close>

fun firstLevel :: "string \<Rightarrow> (string \<times> nat) list \<Rightarrow> nat" where
  "firstLevel text [] = 0"
| "firstLevel text ((degree, level) # table) =
    (if strIncludes text degree then level else firstLevel text table)"

text \<open>The loop that raises \<^verbatim>\<open>candidateLevel\<close> to every level whose name the text contains.\<close>

fun raiseLevel :: "string \<Rightarrow> (string \<times> nat) list \<Rightarrow> nat \<Rightarrow> nat" where
  "raiseLevel text [] candidateLevel = candidateLevel"
| "raiseLevel text ((degree, level) # table) candidateLevel =
    raiseLevel text table (if strIncludes text degree then max candidateLevel level else candidateLevel)"

definition entryText :: "EducationEntry \<Rightarrow> string" where
  "entryText edu = (case edu of EduText s \<Rightarrow> s | EduObject d \<Rightarrow> orEmpty d)"

fun raiseLevelAll :: "EducationEntry list \<Rightarrow> nat \<Rightarrow> nat" where
  "raiseLevelAll [] candidateLevel = candidateLevel"
| "raiseLevelAll (edu # rest) candidateLevel =
    raiseLevelAll rest (raiseLevel (toLowerCase (entryText edu)) DEGREE_LEVELS candidateLevel)"

definition checkEducation :: "string option \<Rightarrow> EducationEntry list \<Rightarrow> string option \<Rightarrow> bool" where
  "checkEducation highest educationList required =
    (if falsyStr required then True
     else if falsyStr highest \<and> educationList = [] then False
     else let requiredLevel = firstLevel (toLowerCase (orEmpty required)) DEGREE_LEVELS
          in if requiredLevel = 0 then True
             else let fromHighest =
                        (if \<not> falsyStr highest
                         then raiseLevel (toLowerCase (orEmpty highest)) DEGREE_LEVELS 0 else 0);
                      candidateLevel = raiseLevelAll educationList fromHighest
                  in candidateLevel \<ge> requiredLevel)"

definition experienceReason :: "Runtime \<Rightarrow> Resume \<Rightarrow> Job \<Rightarrow> string" where
  "experienceReason rt resume job =
    ''Experience requirement not met: Requires ''
      @ (case minExperience job of None \<Rightarrow> ''undefined'' | Some m \<Rightarrow> numToString rt m)
      @ ''+ years, resume shows '' @ numToString rt (orZero (yearsOfExperience resume)) @ '' years''"

definition educationReason :: "Job \<Rightarrow> string" where
  "educationReason job =
    ''Education requirement not met: ''
      @ (case requiredEducation job of None \<Rightarrow> ''undefined'' | Some e \<Rightarrow> e)"

definition evaluateHardFilters :: "Runtime \<Rightarrow> Resume \<Rightarrow> Job \<Rightarrow> HardFilterResult" where
  "evaluateHardFilters rt resume job =
    (let locationOk = True;
         workAuthOk = checkWorkAuthorization (workAuthorization resume) (jobText job);
         reasons1 = (if \<not> workAuthOk
                     then [''Work authorization requirement not clearly stated''] else []);
         experienceOk = checkExperience (orZero (yearsOfExperience resume))
                          (orZero (minExperience job)) (maxExperience job);
         reasons2 = (if \<not> experienceOk then reasons1 @ [experienceReason rt resume job]
                     else reasons1);
         educationOk = checkEducation (highestDegree resume) (orNil (education resume))
                         (requiredEducation job);
         reasons3 = (if \<not> educationOk then reasons2 @ [educationReason job] else reasons2)
     in \<lparr>passed = (locationOk \<and> workAuthOk \<and> experienceOk \<and> educationOk),
         locationMatch = locationOk,
         workAuthorizationMatch = workAuthOk,
         experienceMatch = experienceOk,
         educationMatch = educationOk,
         failureReasons = reasons3\<rparr>)"

subsection \<open>Stage 2: weighted relevance\<close>

definition scoreSkills :: "Resume \<Rightarrow> Job \<Rightarrow> rat" where
  "scoreSkills resume job =
    overallSkillScore
      (matchSkills (Some (orNil (skills resume))) (Some (orNil (requiredSkills job)))
         (Some (orNil (preferredSkills job))))"

definition scoreExperience :: "Resume \<Rightarrow> Job \<Rightarrow> rat" where
  "scoreExperience resume job =
    (let minExp = max (orOne (minExperience job)) 1;
         expRatio = jsDiv (orZero (yearsOfExperience resume)) minExp;
         expScore = min (jsMul expRatio 100) 100;
         score1 = jsAdd 0 (jsMul expScore (fl (4 / 10)));
         combinedExperience = joinWith '' '' (orNil (workExperience resume));
         relevance = calculateTextSimilarity combinedExperience (jobText job);
         score2 = jsAdd score1 (jsMul relevance (fl (6 / 10)))
     in min score2 100)"

definition scoreProjects :: "Resume \<Rightarrow> Job \<Rightarrow> rat" where
  "scoreProjects resume job =
    (if projects resume = None \<or> projects resume = Some [] then 0
     else let combinedProjects = joinWith '' '' (orNil (projects resume));
              relevance = calculateTextSimilarity combinedProjects (jobText job);
              projectBonus = min (rat_of_nat (length (orNil (projects resume))) * 5) 20
          in min (jsAdd relevance projectBonus) 100)"

definition scoreKeywords :: "Resume \<Rightarrow> Job \<Rightarrow> rat" where
  "scoreKeywords resume job =
    (let resumeText = joinWith '' ''
           [joinWith '' '' (orNil (skills resume)),
            joinWith '' '' (orNil (workExperience resume)),
            joinWith '' '' (orNil (projects resume)),
            orEmpty (summary resume)];
         overlap = calculateKeywordOverlap resumeText (jobText job)
     in min overlap 100)"

definition scoreSummary :: "Resume \<Rightarrow> Job \<Rightarrow> rat" where
  "scoreSummary resume job =
    (if falsyStr (summary resume) then 50
     else calculateTextSimilarity (orEmpty (summary resume)) (jobText job))"

definition scoreEducation :: "Resume \<Rightarrow> Job \<Rightarrow> rat" where
  "scoreEducation resume job =
    (if falsyStr (requiredEducation job) then 100
     else if education resume = None \<and> falsyStr (highestDegree resume) then 0
     else if checkEducation (highestDegree resume) (orNil (education resume))
               (requiredEducation job) then 100
     else 50)"

text \<open>The weighted sum and the rounding of \<^verbatim>\<open>_calculateRelevanceScore\<close>, given the six
  sub-scores.\<close>

definition relevanceOf :: "Weights \<Rightarrow> rat \<Rightarrow> rat \<Rightarrow> rat \<Rightarrow> rat \<Rightarrow> rat \<Rightarrow> rat \<Rightarrow> RelevanceScore" where
  "relevanceOf weights skillsS experienceS projectsS keywordsS summaryS educationS =
    (let total = skillsS * wSkills weights
               + experienceS * wExperience weights
               + projectsS * wProjects weights
               + keywordsS * wKeywords weights
               + summaryS * wSummary weights
               + educationS * wEducation weights
     in \<lparr>skillsScore = round2 skillsS,
         experienceScore = round2 experienceS,
         projectsScore = round2 projectsS,
         keywordsScore = round2 keywordsS,
         summaryScore = round2 summaryS,
         educationScore = round2 educationS,
         weightedTotal = round2 total,
         weightsUsed = weights\<rparr>)"

definition calculateRelevanceScore :: "Resume \<Rightarrow> Job \<Rightarrow> Weights option \<Rightarrow> RelevanceScore" where
  "calculateRelevanceScore resume job customWeights =
    (let weights = (case customWeights of Some w \<Rightarrow> w | None \<Rightarrow> getWeights (roleType job))
     in relevanceOf weights
          (scoreSkills resume job) (scoreExperience resume job) (scoreProjects resume job)
          (scoreKeywords resume job) (scoreSummary resume job) (scoreEducation resume job))"

subsection \<open>Feedback and recommendations\<close>

text \<open>The pictographs in front of the messages, as the bytes of the source file.\<close>

definition markTarget :: string where
  "markTarget = [CHR 0xEF, CHR 0xA3, CHR 0xBF, CHR 0xC3, CHR 0xBC, CHR 0xC3, CHR 0xA9, CHR 0xC3, CHR 0x98]"

definition markGood :: string where
  "markGood = [CHR 0xE2, CHR 0x80, CHR 0x9A, CHR 0xC3, CHR 0xBA, CHR 0xC3, CHR 0x96]"

definition markModerate :: string where
  "markModerate = [CHR 0xE2, CHR 0x80, CHR 0x9A, CHR 0xC3, CHR 0xB6, CHR 0xE2, CHR 0x80, CHR 0xA0,
                   CHR 0xC3, CHR 0x94, CHR 0xE2, CHR 0x88, CHR 0x8F, CHR 0xC3, CHR 0xA8]"

definition markLimited :: string where
  "markLimited = [CHR 0xE2, CHR 0x80, CHR 0x9A, CHR 0xC3, CHR 0xB9, CHR 0xC3, CHR 0xA5]"

definition markMemo :: string where
  "markMemo = [CHR 0xEF, CHR 0xA3, CHR 0xBF, CHR 0xC3, CHR 0xBC, CHR 0xC3, CHR 0xAC, CHR 0xC3, CHR 0xB9]"

definition markBriefcase :: string where
  "markBriefcase = [CHR 0xEF, CHR 0xA3, CHR 0xBF, CHR 0xC3, CHR 0xBC, CHR 0xC3, CHR 0xAD, CHR 0xC2, CHR 0xBA]"

definition markKey :: string where
  "markKey = [CHR 0xEF, CHR 0xA3, CHR 0xBF, CHR 0xC3, CHR 0xBC, CHR 0xC3, CHR 0xAE, CHR 0xC3, CHR 0xAB]"

definition markWriting :: string where
  "markWriting = [CHR 0xE2, CHR 0x80, CHR 0x9A, CHR 0xC3, CHR 0xBA, CHR 0xC3, CHR 0xA7, CHR 0xC3, CHR 0x94,
                  CHR 0xE2, CHR 0x88, CHR 0x8F, CHR 0xC3, CHR 0xA8]"

definition markMedal :: string where
  "markMedal = [CHR 0xEF, CHR 0xA3, CHR 0xBF, CHR 0xC3, CHR 0xBC, CHR 0xC3, CHR 0xA8, CHR 0xC3, CHR 0x96]"

definition generateFeedback :: "Runtime \<Rightarrow> HardFilterResult \<Rightarrow> RelevanceScore option \<Rightarrow> SkillAnalysis
    \<Rightarrow> Resume \<Rightarrow> Job \<Rightarrow> string" where
  "generateFeedback rt filters relevance analysis resume job =
    (if \<not> passed filters
     then ''Resume did not pass initial screening. Issues: '' @ joinWith '', '' (failureReasons filters)
     else (case relevance of
             None \<Rightarrow> ''Unable to calculate relevance score.''
           | Some rel \<Rightarrow>
               (let overallScore = weightedTotal rel;
                    fb0 = (if overallScore \<ge> 80
                           then markTarget @ '' Excellent match! Your profile aligns very well with the job requirements. ''
                           else if overallScore \<ge> 60
                           then markGood @ '' Good match! You meet most of the requirements with room for improvement. ''
                           else if overallScore \<ge> 40
                           then markModerate @ '' Moderate match. Consider strengthening key areas to improve your chances. ''
                           else markLimited @ '' Limited match. Significant gaps exist between your profile and requirements. '');
                    fb1 = (if skillsScore rel < 70
                           then fb0 @ ''Your skills match score is '' @ toFixed0 rt (skillsScore rel) @ ''%. ''
                           else fb0);
                    fb2 = (if totalMissing analysis > 0
                           then fb1 @ ''You'' @ [CHR 0x27] @ ''re missing ''
                                  @ numToString rt (rat_of_nat (totalMissing analysis))
                                  @ '' required/preferred skills. ''
                           else fb1);
                    fb3 = (if experienceScore rel < 70
                           then fb2 @ ''Consider highlighting more relevant experience. ''
                           else fb2)
                in fb3)))"

definition generateRecommendations :: "SkillAnalysis \<Rightarrow> RelevanceScore option \<Rightarrow> Resume \<Rightarrow> Job
    \<Rightarrow> string list" where
  "generateRecommendations analysis relevance resume job =
    (let recs1 = (if length (missingRequired analysis) > 0
                  then [markTarget @ '' Acquire or highlight these critical skills: ''
                          @ joinWith '', '' (take 3 (missingRequired analysis))]
                  else []);
         recs2 = (case relevance of
                    None \<Rightarrow> recs1
                  | Some rel \<Rightarrow>
                      recs1
                      @ (if experienceScore rel < 70
                         then [markMemo @ '' Emphasize experience more relevant to this role in your resume'']
                         else [])
                      @ (if projectsScore rel < 50 \<and> roleType job \<noteq> Some ''manager''
                         then [markBriefcase @ '' Add relevant projects that demonstrate required skills'']
                         else [])
                      @ (if keywordsScore rel < 60
                         then [markKey @ '' Include more industry-specific keywords from the job description'']
                         else [])
                      @ (if falsyStr (summary resume) \<or> summaryScore rel < 50
                         then [markWriting @ '' Write or improve your professional summary to align with this role'']
                         else []));
         recs3 = (if (certifications resume = None \<or> certifications resume = Some [])
                     \<and> length (missingRequired analysis) > 0
                  then recs2 @ [markMedal @ '' Consider getting certifications in missing skill areas'']
                  else recs2)
     in take 5 recs3)"

subsection \<open>The two entry points\<close>

text \<open>\<^verbatim>\<open>analyze\<close>; \<open>now\<close> is what \<^verbatim>\<open>new Date().toISOString()\<close> returns during the call.\<close>

definition analyze :: "Runtime \<Rightarrow> string \<Rightarrow> Resume \<Rightarrow> Job \<Rightarrow> Weights option \<Rightarrow> AnalysisResult" where
  "analyze rt now resume job customWeights =
    (let filters = evaluateHardFilters rt resume job;
         relevance = (if passed filters
                      then Some (calculateRelevanceScore resume job customWeights) else None);
         overallMatch = (case relevance of None \<Rightarrow> 0 | Some rel \<Rightarrow> weightedTotal rel);
         analysis = matchSkills (Some (orNil (skills resume))) (Some (orNil (requiredSkills job)))
                      (Some (orNil (preferredSkills job)));
         fb = generateFeedback rt filters relevance analysis resume job;
         recs = generateRecommendations analysis relevance resume job
     in \<lparr>hardFilters = filters,
         relevanceScore = relevance,
         overallMatchPercentage = round2 overallMatch,
         matchedSkills = matchedRequired analysis,
         missingSkills = missingRequired analysis,
         skillAnalysis = analysis,
         feedback = fb,
         recommendations = recs,
         analysisTimestamp = now,
         resultRoleType = (if falsyStr (roleType job) then ''default'' else orEmpty (roleType job))\<rparr>)"

definition quickScore :: "Resume \<Rightarrow> Job \<Rightarrow> QuickScore" where
  "quickScore resume job =
    (let jobSkills = (case requiredSkills job of
                        Some listed \<Rightarrow> listed
                      | None \<Rightarrow> extractSkillsFromText (jobText job));
         resumeSkills = orNil (skills resume);
         analysis = matchSkills (Some resumeSkills) (Some jobSkills) (Some []);
         resumeText = joinWith '' ''
           [joinWith '' '' resumeSkills,
            joinWith '' '' (orNil (workExperience resume)),
            orEmpty (summary resume)];
         keywordMatch = calculateKeywordOverlap resumeText (jobText job);
         quick = jsAdd (jsMul (overallSkillScore analysis) (fl (6 / 10)))
                       (jsMul keywordMatch (fl (4 / 10)))
     in \<lparr>score = round2 quick,
         quickMatchedSkills = matchedRequired analysis,
         quickMissingSkills = missingRequired analysis,
         skillMatchPercentage = requiredMatchPercentage analysis,
         keywordMatchPercentage = round2 keywordMatch\<rparr>)"

subsection \<open>The resume text of the specification\<close>

text \<open>
  The specification joins one resume text, for its keywords score: the skills, the work
  history, the projects and the summary. This definition follows the specification's
  words, to compare with the text that \<^verbatim>\<open>quickScore\<close> joins.
\<close>

definition specResumeText :: "Resume \<Rightarrow> string" where
  "specResumeText resume =
    joinWith '' ''
      [joinWith '' '' (orNil (skills resume)),
       joinWith '' '' (orNil (workExperience resume)),
       joinWith '' '' (orNil (projects resume)),
       orEmpty (summary resume)]"

section \<open>Job-search orchestrator\<close>

text \<open>
  The controller keeps the tasks in the module-level map \<^verbatim>\<open>jobSearchTasks\<close> and cleans up
  with \<^verbatim>\<open>setTimeout\<close>. The store below holds the map, the pending timers with the time
  at which each one is due, and the clock (in milliseconds). A posting \<open>'j\<close> and the
  resume data \<open>'r\<close> are opaque to the orchestrator. What the awaited collaborators
  return is given by a \<open>World\<close>; \<open>Inl\<close> is a rejected promise with its message.
\<close>

record AtsData =
  overall_match_percentage :: "rat option"
  matched_skills :: "string list option"
  missing_skills :: "string list option"
  ats_feedback :: "string list option"
  ats_recommendations :: "string list option"
  hard_filters :: "string option"

record AtsSummary =
  sum_overall_match_percentage :: "rat option"
  sum_matched_skills :: "string list"
  sum_missing_skills :: "string list"
  sum_feedback :: "string list"
  sum_recommendations :: "string list"
  sum_hard_filters :: "string option"

text \<open>An element of \<^verbatim>\<open>task.jobs\<close>: a posting as fetched, or a posting with the two
  properties \<^verbatim>\<open>atsScore\<close> and \<^verbatim>\<open>atsAnalysis\<close> added by the batch loop.\<close>

datatype 'j JobEntry = Unscored 'j | Scored 'j "rat option" "AtsSummary option"

record NoJobsMessage =
  njTitle :: string
  njMessage :: string
  njSuggestions :: "string list"
  njWishMessage :: string

record 'j Task =
  status :: string
  statusMessage :: "string option"
  progress :: int
  totalJobs :: nat
  processedJobs :: nat
  jobs :: "'j JobEntry list"
  completed :: bool
  error :: "string option"
  startedAt :: nat
  userId :: string
  atsAnalyzed :: "bool option"
  noJobsMessage :: "NoJobsMessage option"

record 'j Store =
  tasks :: "string \<rightharpoonup> 'j Task"
  timers :: "(nat \<times> string) list"
  clock :: nat

record ('j, 'r, 'w) World =
  searchOutcome :: "string + 'j list"
  quotaOutcome :: "string + nat option"
  resumeOutcome :: "string + 'r option"
  atsOutcome :: "'r \<Rightarrow> 'j \<Rightarrow> 'w option \<Rightarrow> string + AtsData option"

text \<open>The task record that \<^verbatim>\<open>searchJobs\<close> stores before it starts the background routine.\<close>

definition newTask :: "nat \<Rightarrow> string \<Rightarrow> 'j Task" where
  "newTask now uid =
    \<lparr>status = ''searching'', statusMessage = None, progress = 0, totalJobs = 0,
     processedJobs = 0, jobs = [], completed = False, error = None, startedAt = now,
     userId = uid, atsAnalyzed = None, noJobsMessage = None\<rparr>"

text \<open>
  \<^verbatim>\<open>analyzeJobWithATS\<close>: the whole body is inside \<^verbatim>\<open>try\<close>, and the handler returns
  \<^verbatim>\<open>null\<close>. The outcome of the body (building the request and the HTTP call) comes
  from the world.
\<close>

definition analyzeJobWithATS :: "('r \<Rightarrow> 'j \<Rightarrow> 'w option \<Rightarrow> string + AtsData option)
    \<Rightarrow> 'r \<Rightarrow> 'j \<Rightarrow> 'w option \<Rightarrow> AtsData option" where
  "analyzeJobWithATS outcome resumeData jobData customWeights =
    (case outcome resumeData jobData customWeights of
       Inl message \<Rightarrow> None
     | Inr responseData \<Rightarrow> responseData)"

text \<open>
  The object built from a response, and the callback of \<^verbatim>\<open>batch.map\<close>: \<open>scorer\<close> is the awaited analysis of one posting,
  \<open>Inl\<close> when it throws.
\<close>

definition summarize :: "AtsData \<Rightarrow> AtsSummary" where
  "summarize atsAnalysis =
    \<lparr>sum_overall_match_percentage = overall_match_percentage atsAnalysis,
     sum_matched_skills = orNil (matched_skills atsAnalysis),
     sum_missing_skills = orNil (missing_skills atsAnalysis),
     sum_feedback = orNil (ats_feedback atsAnalysis),
     sum_recommendations = orNil (ats_recommendations atsAnalysis),
     sum_hard_filters = hard_filters atsAnalysis\<rparr>"

definition analyzeInBatch :: "('j \<Rightarrow> string + AtsData option) \<Rightarrow> 'j \<Rightarrow> 'j JobEntry" where
  "analyzeInBatch scorer job =
    (case scorer job of
       Inl message \<Rightarrow> Scored job None None
     | Inr None \<Rightarrow> Scored job None None
     | Inr (Some atsAnalysis) \<Rightarrow>
         Scored job (overall_match_percentage atsAnalysis) (Some (summarize atsAnalysis)))"

definition batchSize :: nat where
  "batchSize = 3"

text \<open>The loop \<^verbatim>\<open>for (let i = 0; i < jobsToAnalyze.length; i += batchSize)\<close>.\<close>

function processBatches :: "('j \<Rightarrow> string + AtsData option) \<Rightarrow> 'j list \<Rightarrow> nat \<Rightarrow> 'j Task \<Rightarrow> 'j Task" where
  "processBatches scorer jobsToAnalyze i task =
    (if i < length jobsToAnalyze
     then let batch = take batchSize (drop i jobsToAnalyze);
              analyzedBatch = map (analyzeInBatch scorer) batch;
              pushed = jobs task @ analyzedBatch;
              task' = task\<lparr>jobs := pushed,
                           processedJobs := length pushed,
                           progress := mathRound (rat_of_nat (length pushed)
                                         / rat_of_nat (length jobsToAnalyze) * 100)\<rparr>
          in processBatches scorer jobsToAnalyze (i + batchSize) task'
     else task)"
  by pat_completeness auto
termination
  by (relation "measure (\<lambda>(scorer, jobsToAnalyze, i, task). length jobsToAnalyze - i)")
     (auto simp: batchSize_def)

declare processBatches.simps [simp del]

text \<open>\<^verbatim>\<open>a.atsScore || 0\<close> and the stable sort by descending score.\<close>

definition scoreOrZero :: "'j JobEntry \<Rightarrow> rat" where
  "scoreOrZero e = (case e of Unscored _ \<Rightarrow> 0 | Scored _ s _ \<Rightarrow> orZero s)"

definition sortByScore :: "'j JobEntry list \<Rightarrow> 'j JobEntry list" where
  "sortByScore es = sort_key (\<lambda>e. - scoreOrZero e) es"

definition RETENTION_MS :: nat where
  "RETENTION_MS = 5 * 60 * 1000"

definition setTimeoutDelete :: "string \<Rightarrow> nat \<Rightarrow> 'j Store \<Rightarrow> 'j Store" where
  "setTimeoutDelete taskId delay store =
    store\<lparr>timers := timers store @ [(clock store + delay, taskId)]\<rparr>"

definition markSwitch :: string where
  "markSwitch = [CHR 0xF0, CHR 0x9F, CHR 0x94, CHR 0x84]"

definition markPin :: string where
  "markPin = [CHR 0xF0, CHR 0x9F, CHR 0x93, CHR 0x8D]"

definition markAim :: string where
  "markAim = [CHR 0xF0, CHR 0x9F, CHR 0x8E, CHR 0xAF]"

definition markWarning :: string where
  "markWarning = [CHR 0xE2, CHR 0x9A, CHR 0xA0, CHR 0xEF, CHR 0xB8, CHR 0x8F]"

definition noJobsPayload :: "Runtime \<Rightarrow> string \<Rightarrow> string \<Rightarrow> string option \<Rightarrow> nat \<Rightarrow> NoJobsMessage" where
  "noJobsPayload rt keyword searchLocation company remainingSearches =
    \<lparr>njTitle = ''No Job Vacancies Found'',
     njMessage =
       (if \<not> falsyStr company
        then ''Unfortunately, there are no current openings for \"'' @ keyword @ ''\" at ''
               @ orEmpty company @ '' in '' @ searchLocation @ ''.''
        else ''Unfortunately, there are no current openings for \"'' @ keyword @ ''\" in ''
               @ searchLocation @ ''.''),
     njSuggestions =
       [markSwitch @ '' Try a general search instead of company-specific search for better results'',
        markPin @ '' Consider expanding your location or trying \"remote\" option'',
        markAim @ '' Use different keywords or job titles'',
        markWarning @ '' Your search limit has been reduced to ''
          @ numToString rt (rat_of_nat remainingSearches) @ ''/3 - avoid unnecessary searches''],
     njWishMessage = ''Best wishes for your job search! Try again with different criteria.''\<rparr>"

text \<open>The three places that finish a task with the postings as fetched.\<close>

definition finishUnscored :: "'j list \<Rightarrow> 'j Task \<Rightarrow> 'j Task" where
  "finishUnscored allJobs task =
    task\<lparr>jobs := map Unscored allJobs,
         processedJobs := length allJobs,
         progress := 100,
         status := ''completed'',
         completed := True,
         atsAnalyzed := Some False\<rparr>"

text \<open>The handler of the outer \<^verbatim>\<open>try\<close>: the task, if it is still in the map, fails.\<close>

definition failTask :: "string \<Rightarrow> string \<Rightarrow> 'j Store \<Rightarrow> 'j Store" where
  "failTask taskId message store =
    (case tasks store taskId of
       None \<Rightarrow> store
     | Some task \<Rightarrow>
         store\<lparr>tasks := (tasks store)(taskId \<mapsto>
                  task\<lparr>status := ''failed'', error := Some message, completed := True\<rparr>)\<rparr>)"

text \<open>
  \<^verbatim>\<open>processJobSearch\<close>, from its call to the end of its last step. The task object is
  mutated in place, so each step writes it back under its id. The decrement of the
  user's quota has its own \<^verbatim>\<open>try\<close> and touches neither the task nor the control flow.
  Reading a property of a task that is not in the map throws a \<^verbatim>\<open>TypeError\<close>.
\<close>

definition processJobSearch :: "Runtime \<Rightarrow> ('j, 'r, 'w) World \<Rightarrow> string \<Rightarrow> string \<Rightarrow> string
    \<Rightarrow> string option \<Rightarrow> 'w option \<Rightarrow> string option \<Rightarrow> 'j Store \<Rightarrow> 'j Store" where
  "processJobSearch rt world taskId keyword searchLocation resumeId atsWeights company store =
    (case tasks store taskId of
       None \<Rightarrow> failTask taskId ''TypeError'' store
     | Some task0 \<Rightarrow>
         (let task1 = task0\<lparr>statusMessage := Some ''Searching jobs via JSearch API...''\<rparr>;
              store1 = store\<lparr>tasks := (tasks store)(taskId \<mapsto> task1)\<rparr>
          in case searchOutcome world of
               Inl message \<Rightarrow> failTask taskId message store1
             | Inr allJobs \<Rightarrow>
                 (let task2 = task1\<lparr>totalJobs := length allJobs,
                                    status := ''analyzing'',
                                    statusMessage := Some (''Found ''
                                      @ numToString rt (rat_of_nat (length allJobs)) @ '' jobs'')\<rparr>;
                      store2 = store\<lparr>tasks := (tasks store)(taskId \<mapsto> task2)\<rparr>
                  in if length allJobs = 0
                     then (case quotaOutcome world of
                             Inl message \<Rightarrow> failTask taskId message store2
                           | Inr limit \<Rightarrow>
                               (let remainingSearches = (case limit of None \<Rightarrow> 0 | Some n \<Rightarrow> n);
                                    task3 = task2\<lparr>jobs := [],
                                                  processedJobs := 0,
                                                  progress := 100,
                                                  status := ''completed'',
                                                  completed := True,
                                                  noJobsMessage := Some (noJobsPayload rt keyword
                                                    searchLocation company remainingSearches)\<rparr>
                                in store\<lparr>tasks := (tasks store)(taskId \<mapsto> task3)\<rparr>))
                     else if falsyStr resumeId
                     then store\<lparr>tasks := (tasks store)(taskId \<mapsto> finishUnscored allJobs task2)\<rparr>
                     else (case resumeOutcome world of
                             Inl message \<Rightarrow> failTask taskId message store2
                           | Inr None \<Rightarrow>
                               store\<lparr>tasks := (tasks store)(taskId \<mapsto> finishUnscored allJobs task2)\<rparr>
                           | Inr (Some resumeData) \<Rightarrow>
                               (let jobsToAnalyze = take 20 allJobs;
                                    scorer = (\<lambda>job. Inr (analyzeJobWithATS (atsOutcome world)
                                                              resumeData job atsWeights));
                                    task3 = processBatches scorer jobsToAnalyze 0 task2;
                                    task4 = task3\<lparr>jobs := sortByScore (jobs task3),
                                                  status := ''completed'',
                                                  completed := True,
                                                  progress := 100,
                                                  atsAnalyzed := Some True\<rparr>
                                in setTimeoutDelete taskId RETENTION_MS
                                     (store\<lparr>tasks := (tasks store)(taskId \<mapsto> task4)\<rparr>))))))"

text \<open>Time passes: every timer that is due runs its callback and is gone.\<close>

definition advance :: "nat \<Rightarrow> 'j Store \<Rightarrow> 'j Store" where
  "advance elapsed store =
    (let now = clock store + elapsed;
         due = filter (\<lambda>(t, taskId). t \<le> now) (timers store);
         pending = filter (\<lambda>(t, taskId). \<not> t \<le> now) (timers store)
     in \<lparr>tasks = foldl (\<lambda>m (t, taskId). m(taskId := None)) (tasks store) due,
         timers = pending,
         clock = now\<rparr>)"

record 'j PollBody =
  pollStatus :: string
  pollStatusMessage :: string
  pollProgress :: int
  pollTotalJobs :: nat
  pollProcessedJobs :: nat
  pollCompleted :: bool
  pollJobs :: "'j JobEntry list"
  pollAtsAnalyzed :: bool
  pollNoJobsMessage :: "NoJobsMessage option"
  pollError :: "string option"

datatype 'j PollResponse = NotFound404 string | Ok200 "'j PollBody"

definition pollJobSearch :: "string \<Rightarrow> 'j Store \<Rightarrow> 'j PollResponse" where
  "pollJobSearch taskId store =
    (case tasks store taskId of
       None \<Rightarrow> NotFound404 ''Task not found or expired''
     | Some task \<Rightarrow>
         Ok200 \<lparr>pollStatus = (if status task = ''scraping'' \<or> status task = ''analyzing''
                              then ''searching'' else status task),
                pollStatusMessage = orEmpty (statusMessage task),
                pollProgress = progress task,
                pollTotalJobs = totalJobs task,
                pollProcessedJobs = processedJobs task,
                pollCompleted = completed task,
                pollJobs = jobs task,
                pollAtsAnalyzed = (case atsAnalyzed task of None \<Rightarrow> False | Some b \<Rightarrow> b),
                pollNoJobsMessage = noJobsMessage task,
                pollError = error task\<rparr>)"

section \<open>Sample inputs\<close>

text \<open>Concrete resumes, jobs and worlds at which the theorems below are instantiated.\<close>

definition plainRuntime :: Runtime where
  "plainRuntime = \<lparr>numToString = (\<lambda>n. ''#''), toFixed0 = (\<lambda>n. ''#'')\<rparr>"

definition emptyResume :: Resume where
  "emptyResume =
    \<lparr>skills = None, workExperience = None, projects = None, summary = None,
     yearsOfExperience = None, highestDegree = None, education = None,
     workAuthorization = None, certifications = None\<rparr>"

definition emptyJob :: Job where
  "emptyJob =
    \<lparr>description = None, jobDescription = None, requiredSkills = None,
     preferredSkills = None, minExperience = None, maxExperience = None,
     requiredEducation = None, roleType = None\<rparr>"

definition pythonResume :: Resume where
  "pythonResume = emptyResume\<lparr>skills := Some [''python''], yearsOfExperience := Some 5\<rparr>"

definition seniorJob :: Job where
  "seniorJob =
    emptyJob\<lparr>description := Some ''python java sql'',
             requiredSkills := Some [''python''],
             preferredSkills := Some [''python''],
             minExperience := Some 10\<rparr>"



definition projectsResume :: Resume where
  "projectsResume = emptyResume\<lparr>projects := Some [''java'']\<rparr>"

definition javaJob :: Job where
  "javaJob = emptyJob\<lparr>description := Some ''java''\<rparr>"

definition emptyListJob :: Job where
  "emptyListJob = emptyJob\<lparr>description := Some ''python'', requiredSkills := Some []\<rparr>"


definition sampleStore :: "nat Store" where
  "sampleStore = \<lparr>tasks = [''t1'' \<mapsto> newTask 0 ''u1''], timers = [], clock = 0\<rparr>"

definition sampleData :: "rat \<Rightarrow> AtsData" where
  "sampleData s =
    \<lparr>overall_match_percentage = Some s, matched_skills = None, missing_skills = None,
     ats_feedback = None, ats_recommendations = None, hard_filters = None\<rparr>"

text \<open>No posting is found.\<close>

definition zeroJobsWorld :: "(nat, unit, unit) World" where
  "zeroJobsWorld =
    \<lparr>searchOutcome = Inr [], quotaOutcome = Inr (Some 2), resumeOutcome = Inr (Some ()),
     atsOutcome = (\<lambda>r j w. Inr None)\<rparr>"

text \<open>Five postings are found; the analysis of posting 2 fails, posting \<open>j\<close> scores \<open>10 j\<close>.\<close>

definition fiveJobsWorld :: "(nat, unit, unit) World" where
  "fiveJobsWorld =
    \<lparr>searchOutcome = Inr [1, 2, 3, 4, 5], quotaOutcome = Inr (Some 2),
     resumeOutcome = Inr (Some ()),
     atsOutcome = (\<lambda>r j w. if j = 2 then Inl ''timeout of 30000ms exceeded''
                             else Inr (Some (sampleData (10 * rat_of_nat j))))\<rparr>"

section \<open>Properties of the skill matcher\<close>

lemma set_setAdd: "set (setAdd s x) = insert x (set s)"
  by (auto simp: setAdd_def)

lemma set_foldl_setAdd: "set (foldl setAdd s xs) = set s \<union> set xs"
  by (induction xs arbitrary: s) (auto simp: set_setAdd)

lemma set_newSet: "set (newSet xs) = set xs"
  by (simp add: newSet_def set_foldl_setAdd)

lemma distinct_setAdd: "distinct s \<Longrightarrow> distinct (setAdd s x)"
  by (auto simp: setAdd_def)

lemma distinct_foldl_setAdd: "distinct s \<Longrightarrow> distinct (foldl setAdd s xs)"
  by (induction xs arbitrary: s) (auto simp: distinct_setAdd)

lemma splitJobSkills_sets:
  "splitJobSkills nr mat mis js = (mat', mis') \<Longrightarrow>
     set mat' = set mat \<union> (set js \<inter> set nr) \<and> set mis' = set mis \<union> (set js - set nr)"
proof (induction js arbitrary: mat mis)
  case Nil
  then show ?case by simp
next
  case (Cons skill rest)
  show ?case
  proof (cases "skill \<in> set nr")
    case True
    with Cons.prems have "splitJobSkills nr (setAdd mat skill) mis rest = (mat', mis')" by simp
    from Cons.IH [OF this] True show ?thesis by (auto simp: set_setAdd)
  next
    case False
    with Cons.prems have "splitJobSkills nr mat (setAdd mis skill) rest = (mat', mis')" by simp
    from Cons.IH [OF this] False show ?thesis by (auto simp: set_setAdd)
  qed
qed

text \<open>With a resume skill list that is empty or absent the guard returns the job skills
  as they were passed, without normalising them.\<close>

lemma matchSkillsWithSynonyms_guard:
  "S = None \<or> S = Some [] \<Longrightarrow>
     matched (matchSkillsWithSynonyms S R) = [] \<and>
     missing (matchSkillsWithSynonyms S R) = newSet (orNil R) \<and>
     matchPct (matchSkillsWithSynonyms S R) = 0"
  by (auto simp: matchSkillsWithSynonyms_def orNil_def)

lemma matchSkillsWithSynonyms_sets:
  assumes "S \<noteq> []"
  shows "set (matched (matchSkillsWithSynonyms (Some S) R)) =
           set (normalizeSkills (orNil R)) \<inter> set (normalizeSkills S)
       \<and> set (missing (matchSkillsWithSynonyms (Some S) R)) =
           set (normalizeSkills (orNil R)) - set (normalizeSkills S)"
proof (cases "R = None \<or> R = Some []")
  case True
  then show ?thesis
    by (auto simp: matchSkillsWithSynonyms_def normalizeSkills_def newSet_def orNil_def)
next
  case False
  then obtain r where R: "R = Some r" "r \<noteq> []" by (cases R) auto
  obtain mat mis where sp:
    "splitJobSkills (normalizeSkills S) [] [] (normalizeSkills r) = (mat, mis)"
    by (cases "splitJobSkills (normalizeSkills S) [] [] (normalizeSkills r)")
  from splitJobSkills_sets [OF sp] assms R sp show ?thesis
    by (simp add: matchSkillsWithSynonyms_def Let_def orNil_def)
qed

text \<open>
  Claim C1, as amended. For every non-empty resume skill list \<open>S\<close> and every job
  required-skill list \<open>R\<close> (present or absent), \<open>matchSkills S R []\<close> partitions the
  synonym-normalised form of \<open>R\<close>: \<open>missingRequired\<close> and \<open>matchedRequired\<close> are disjoint
  and their union is \<open>normalizeSkills R\<close>.
\<close>

theorem matchSkills_partitions_normalized_required:
  assumes "S \<noteq> []"
  shows "set (missingRequired (matchSkills (Some S) R (Some []))) \<union>
         set (matchedRequired (matchSkills (Some S) R (Some []))) =
           set (normalizeSkills (orNil R))
       \<and> set (missingRequired (matchSkills (Some S) R (Some []))) \<inter>
         set (matchedRequired (matchSkills (Some S) R (Some []))) = {}"
  using matchSkillsWithSynonyms_sets [OF assms, of R]
  by (auto simp: matchSkills_def Let_def)

theorem matchSkills_partitions_normalized_required_witness:
  "[''javascript'', ''node''] \<noteq> []
   \<and> set (missingRequired (matchSkills (Some [''javascript'', ''node''])
            (Some [''js'', ''express'']) (Some []))) \<union>
     set (matchedRequired (matchSkills (Some [''javascript'', ''node''])
            (Some [''js'', ''express'']) (Some []))) =
       set (normalizeSkills [''js'', ''express''])
   \<and> set (missingRequired (matchSkills (Some [''javascript'', ''node''])
            (Some [''js'', ''express'']) (Some []))) \<inter>
     set (matchedRequired (matchSkills (Some [''javascript'', ''node''])
            (Some [''js'', ''express'']) (Some []))) = {}"
proof -
  have ne: "[''javascript'', ''node''] \<noteq> ([] :: string list)" by simp
  show ?thesis
    using ne matchSkills_partitions_normalized_required
            [OF ne, of "Some [''js'', ''express'']"]
    by (simp add: orNil_def)
qed

text \<open>
  Claim C1 as stated fails when the resume skill list is empty: the guard of
  \<^verbatim>\<open>matchSkillsWithSynonyms\<close> returns the raw job skills as missing, so for the job
  skills \<^verbatim>\<open>["js"]\<close> the union is \<open>{js}\<close> while the normalised form has five elements.
\<close>

theorem matchSkills_empty_resume_not_normalized:
  "set (missingRequired (matchSkills (Some []) (Some [''js'']) (Some []))) \<union>
   set (matchedRequired (matchSkills (Some []) (Some [''js'']) (Some []))) \<noteq>
     set (normalizeSkills [''js''])"
  by code_simp

text \<open>The result of the scenario, evaluated once.\<close>

lemma matchSkills_scenario_value:
  "matchSkills (Some [''javascript'', ''node'']) (Some [''js'', ''express'']) (Some [])
     = \<lparr>matchedRequired = [''javascript'', ''js'', ''ecmascript'', ''node.js'', ''nodejs''],
        matchedPreferred = [],
        missingRequired = [''express'', ''expressjs'', ''express.js''],
        missingPreferred = [],
        requiredMatchPercentage = 125 / 2,
        preferredMatchPercentage = 0,
        overallSkillScore = 175 / 4,
        totalMatched = 5,
        totalMissing = 3\<rparr>"
  by code_simp

text \<open>
  Claim C2, as amended. For the resume skills \<^verbatim>\<open>["javascript","node"]\<close> and the required
  skills \<^verbatim>\<open>["js","express"]\<close> with no preferred skills, the matched set is javascript
  with its four synonyms, the missing set is express with its two synonyms, and
  \<open>requiredMatchPercentage\<close> is 62.5 (five of eight).
\<close>

theorem matchSkills_scenario:
  "matchedRequired (matchSkills (Some [''javascript'', ''node''])
       (Some [''js'', ''express'']) (Some []))
     = [''javascript'', ''js'', ''ecmascript'', ''node.js'', ''nodejs'']
   \<and> missingRequired (matchSkills (Some [''javascript'', ''node''])
       (Some [''js'', ''express'']) (Some []))
     = [''express'', ''expressjs'', ''express.js'']
   \<and> requiredMatchPercentage (matchSkills (Some [''javascript'', ''node''])
       (Some [''js'', ''express'']) (Some [])) = 125 / 2"
  by (simp add: matchSkills_scenario_value)

text \<open>Claim C2 as stated fails: the sets are not the two singletons and the percentage
  is not 50.\<close>

theorem matchSkills_scenario_not_singletons:
  "\<not> (set (matchedRequired (matchSkills (Some [''javascript'', ''node''])
            (Some [''js'', ''express'']) (Some []))) = {''javascript''}
      \<and> set (missingRequired (matchSkills (Some [''javascript'', ''node''])
            (Some [''js'', ''express'']) (Some []))) = {''express''}
      \<and> requiredMatchPercentage (matchSkills (Some [''javascript'', ''node''])
            (Some [''js'', ''express'']) (Some [])) = 50)"
  by (simp add: matchSkills_scenario_value)

section \<open>Properties of the relevance scorer\<close>

subsection \<open>Rounding\<close>










lemma mathRound_zero: "mathRound 0 = 0"
  unfolding mathRound_def by (rule floor_unique) simp_all

lemma round2_zero: "round2 0 = 0"
  by (simp add: round2_def jsMul_def jsDiv_def fl_def mathRound_zero)



subsection \<open>Hard filters\<close>





subsection \<open>Weighted relevance\<close>












subsection \<open>The analysis\<close>

text \<open>
  Claim C5. When the hard filters fail, \<open>analyze\<close> returns no relevance score and an
  overall match of 0, still computes the skill analysis from the resume skills and the
  job's required and preferred skills, and its feedback is the list of failure reasons
  joined into one message.
\<close>

theorem analyze_failed_hard_filters:
  assumes "\<not> passed (evaluateHardFilters rt resume job)"
  shows "hardFilters (analyze rt now resume job customWeights) = evaluateHardFilters rt resume job
       \<and> relevanceScore (analyze rt now resume job customWeights) = None
       \<and> overallMatchPercentage (analyze rt now resume job customWeights) = 0
       \<and> skillAnalysis (analyze rt now resume job customWeights)
           = matchSkills (Some (orNil (skills resume))) (Some (orNil (requiredSkills job)))
               (Some (orNil (preferredSkills job)))
       \<and> feedback (analyze rt now resume job customWeights)
           = ''Resume did not pass initial screening. Issues: ''
               @ joinWith '', '' (failureReasons (evaluateHardFilters rt resume job))"
  using assms by (simp add: analyze_def Let_def generateFeedback_def round2_zero)

theorem analyze_failed_hard_filters_witness:
  "\<not> passed (evaluateHardFilters plainRuntime pythonResume seniorJob)
   \<and> relevanceScore (analyze plainRuntime ''2026'' pythonResume seniorJob None) = None
   \<and> overallMatchPercentage (analyze plainRuntime ''2026'' pythonResume seniorJob None) = 0
   \<and> matchedRequired (skillAnalysis (analyze plainRuntime ''2026'' pythonResume seniorJob None))
        = [''python'', ''py'']
   \<and> feedback (analyze plainRuntime ''2026'' pythonResume seniorJob None)
        = ''Resume did not pass initial screening. Issues: ''
            @ ''Experience requirement not met: Requires #+ years, resume shows # years''"
proof -
  have failed: "\<not> passed (evaluateHardFilters plainRuntime pythonResume seniorJob)"
    by code_simp
  have reasons: "failureReasons (evaluateHardFilters plainRuntime pythonResume seniorJob)
      = [''Experience requirement not met: Requires #+ years, resume shows # years'']"
    by code_simp
  have matched: "matchedRequired (matchSkills (Some (orNil (skills pythonResume)))
      (Some (orNil (requiredSkills seniorJob))) (Some (orNil (preferredSkills seniorJob))))
      = [''python'', ''py'']"
    by code_simp
  show ?thesis
    using failed reasons matched
      analyze_failed_hard_filters [OF failed, of "''2026''" None]
    by simp
qed

text \<open>The education sub-score of a direct call, whatever the hard filters say, follows
  the four cases unless the education list is present and empty while the highest degree
  is missing; there \<^verbatim>\<open>!resume.education\<close> is false and the result is 50.\<close>

lemma scoreEducation_cases:
  assumes "education resume \<noteq> Some [] \<or> \<not> falsyStr (highestDegree resume)"
  shows "scoreEducation resume job =
    (if falsyStr (requiredEducation job) then 100
     else if orNil (education resume) = [] \<and> falsyStr (highestDegree resume) then 0
     else if checkEducation (highestDegree resume) (orNil (education resume))
               (requiredEducation job) then 100
     else 50)"
  using assms by (cases "education resume") (auto simp: scoreEducation_def orNil_def)

lemma scoreEducation_empty_education_list:
  "scoreEducation (emptyResume\<lparr>education := Some []\<rparr>)
     (emptyJob\<lparr>requiredEducation := Some ''Bachelor''\<rparr>) = 50"
  by code_simp





subsection \<open>The quick score\<close>

lemma jobText_ignores_other_fields:
  "jobText (job\<lparr>preferredSkills := preferred, minExperience := minExp, maxExperience := maxExp,
               requiredEducation := reqEdu, roleType := role\<rparr>)
     = jobText job"
  by (simp add: jobText_def)

text \<open>
  Claim C7, as amended. \<open>quickScore\<close> applies no hard filters and returns as score the
  value 0.6 \<times> overallSkillScore + 0.4 \<times> keywordOverlap(text, job description), computed
  in double precision and then rounded by \<^verbatim>\<open>Math.round(x * 100) / 100\<close>. The text is the
  resume's skills, work history and summary joined by blanks; the projects are not part
  of it. The job skill list is derived from the description by the skill matcher's
  text extraction when the job's list is absent; a list that is present, also an empty
  one, is used as it is. The result does not depend on the resume's projects, years of
  experience, degree, education, work authorization or certifications, nor on the
  job's preferred skills, experience bounds, required education or role type.
\<close>

theorem quickScore_formula:
  "score (quickScore resume job) =
     round2
       (jsAdd
          (jsMul
             (overallSkillScore
                (matchSkills (Some (orNil (skills resume)))
                   (Some (case requiredSkills job of
                            None \<Rightarrow> extractSkillsFromText (jobText job)
                          | Some listed \<Rightarrow> listed))
                   (Some [])))
             (fl (6 / 10)))
          (jsMul
             (calculateKeywordOverlap
                (joinWith '' ''
                   [joinWith '' '' (orNil (skills resume)),
                    joinWith '' '' (orNil (workExperience resume)),
                    orEmpty (summary resume)])
                (jobText job))
             (fl (4 / 10))))
   \<and> quickScore
        (resume\<lparr>projects := proj, yearsOfExperience := years, highestDegree := degree,
                education := edu, workAuthorization := auth, certifications := certs\<rparr>)
        (job\<lparr>preferredSkills := preferred, minExperience := minExp, maxExperience := maxExp,
             requiredEducation := reqEdu, roleType := role\<rparr>)
      = quickScore resume job"
proof -
  have "quickScore
        (resume\<lparr>projects := proj, yearsOfExperience := years, highestDegree := degree,
                education := edu, workAuthorization := auth, certifications := certs\<rparr>)
        (job\<lparr>preferredSkills := preferred, minExperience := minExp, maxExperience := maxExp,
             requiredEducation := reqEdu, roleType := role\<rparr>)
      = quickScore resume job"
    by (simp add: quickScore_def jobText_ignores_other_fields cong: option.case_cong)
  moreover have "score (quickScore resume job) =
     round2
       (jsAdd
          (jsMul
             (overallSkillScore
                (matchSkills (Some (orNil (skills resume)))
                   (Some (case requiredSkills job of
                            None \<Rightarrow> extractSkillsFromText (jobText job)
                          | Some listed \<Rightarrow> listed))
                   (Some [])))
             (fl (6 / 10)))
          (jsMul
             (calculateKeywordOverlap
                (joinWith '' ''
                   [joinWith '' '' (orNil (skills resume)),
                    joinWith '' '' (orNil (workExperience resume)),
                    orEmpty (summary resume)])
                (jobText job))
             (fl (4 / 10))))"
    by (cases "requiredSkills job") (simp_all add: quickScore_def Let_def)
  ultimately show ?thesis by simp
qed

text \<open>The quick scores of three sample pairs.\<close>

lemma quick_sample_skill: "overallSkillScore (matchSkills (Some (orNil (skills pythonResume)))
      (Some (orNil (requiredSkills seniorJob))) (Some [])) = 70"
  by code_simp

lemma quick_sample_overlap:
  "calculateKeywordOverlap (specResumeText pythonResume) (jobText seniorJob)
        = 2345624805922133 / 70368744177664"
  by code_simp

lemma quick_sample_score: "score (quickScore pythonResume seniorJob) = fl (5533 / 100)"
  by code_simp

lemma quick_sample_exact:
  "fl (5533 / 100) \<noteq> 6 / 10 * 70 + 4 / 10 * (2345624805922133 / 70368744177664)"
  by code_simp

lemma quick_sample_double:
  "fl (5533 / 100)
     \<noteq> jsAdd (jsMul 70 (fl (6 / 10))) (jsMul (2345624805922133 / 70368744177664) (fl (4 / 10)))"
  by code_simp

lemma quick_projects_overlap:
  "calculateKeywordOverlap (specResumeText projectsResume) (jobText javaJob) = 100"
  by code_simp

lemma quick_projects_value:
  "quickScore projectsResume javaJob
     = \<lparr>score = 0, quickMatchedSkills = [], quickMissingSkills = [''java''],
        skillMatchPercentage = 0, keywordMatchPercentage = 0\<rparr>"
  by code_simp

lemma quick_emptyList_extract: "extractSkillsFromText (jobText emptyListJob) = [''python'']"
  by code_simp

lemma quick_emptyList_value:
  "quickScore pythonResume emptyListJob
     = \<lparr>score = 40, quickMatchedSkills = [], quickMissingSkills = [],
        skillMatchPercentage = 0, keywordMatchPercentage = 100\<rparr>"
  by code_simp

text \<open>
  Claim C7 as stated fails in three ways. The score is rounded: for the sample resume
  and job the overall skill score is 70 and the keyword overlap a third of 100, and the
  score is 55.33, which is neither the exact value of the formula nor its value in
  double precision. The projects are not part of the text: a resume whose only text is
  the project \<^verbatim>\<open>java\<close> overlaps fully with the description \<^verbatim>\<open>java\<close> by the
  specification's resume text, and scores 0. And an empty skill list is not replaced:
  for the description \<^verbatim>\<open>python\<close> the extraction gives the skill python, but with the
  list \<^verbatim>\<open>[]\<close> nothing is matched or missing.
\<close>

theorem quickScore_not_the_plain_formula:
  "overallSkillScore (matchSkills (Some (orNil (skills pythonResume)))
      (Some (orNil (requiredSkills seniorJob))) (Some [])) = 70
   \<and> calculateKeywordOverlap (specResumeText pythonResume) (jobText seniorJob)
        = 2345624805922133 / 70368744177664
   \<and> score (quickScore pythonResume seniorJob) = fl (5533 / 100)
   \<and> score (quickScore pythonResume seniorJob)
        \<noteq> 6 / 10 * 70 + 4 / 10 * (2345624805922133 / 70368744177664)
   \<and> score (quickScore pythonResume seniorJob)
        \<noteq> jsAdd (jsMul 70 (fl (6 / 10))) (jsMul (2345624805922133 / 70368744177664) (fl (4 / 10)))
   \<and> calculateKeywordOverlap (specResumeText projectsResume) (jobText javaJob) = 100
   \<and> keywordMatchPercentage (quickScore projectsResume javaJob) = 0
   \<and> score (quickScore projectsResume javaJob) = 0
   \<and> extractSkillsFromText (jobText emptyListJob) = [''python'']
   \<and> quickMatchedSkills (quickScore pythonResume emptyListJob) = []
   \<and> quickMissingSkills (quickScore pythonResume emptyListJob) = []
   \<and> skillMatchPercentage (quickScore pythonResume emptyListJob) = 0"
  using quick_sample_skill quick_sample_overlap quick_sample_exact quick_sample_double
    quick_projects_overlap quick_emptyList_extract
  by (simp only: quick_sample_score quick_projects_value quick_emptyList_value
        QuickScore.simps simp_thms)

text \<open>In the embedding the reading of the clock is an argument of \<open>analyze\<close>, and it
  reaches no field but \<open>analysisTimestamp\<close>.\<close>

lemma analyze_clock_only_in_timestamp:
  "(analyze rt now1 resume job customWeights)\<lparr>analysisTimestamp := stamp\<rparr>
     = (analyze rt now2 resume job customWeights)\<lparr>analysisTimestamp := stamp\<rparr>
   \<and> analysisTimestamp (analyze rt now1 resume job customWeights) = now1"
  by (simp add: analyze_def Let_def)

section \<open>Properties of the orchestrator\<close>

text \<open>The batch loop appends one entry for each posting from position \<open>i\<close> on, in order,
  and leaves the error of the task alone.\<close>

lemma processBatches_jobs:
  "jobs (processBatches scorer js i task) = jobs task @ map (analyzeInBatch scorer) (drop i js)"
proof (induction scorer js i task rule: processBatches.induct)
  case (1 scorer js i task)
  show ?case
  proof (cases "i < length js")
    case True
    let ?batch = "take batchSize (drop i js)"
    let ?pushed = "jobs task @ map (analyzeInBatch scorer) ?batch"
    let ?task' = "task\<lparr>jobs := ?pushed, processedJobs := length ?pushed,
        progress := mathRound (rat_of_nat (length ?pushed) / rat_of_nat (length js) * 100)\<rparr>"
    have step: "processBatches scorer js i task = processBatches scorer js (i + batchSize) ?task'"
      using True by (subst processBatches.simps) (simp add: Let_def)
    have ih: "jobs (processBatches scorer js (i + batchSize) ?task')
                = jobs ?task' @ map (analyzeInBatch scorer) (drop (i + batchSize) js)"
      using True by (rule "1.IH") (rule refl)+
    have "take batchSize (drop i js) @ drop (i + batchSize) js = drop i js"
      by (metis add.commute append_take_drop_id drop_drop)
    then have "map (analyzeInBatch scorer) ?batch @ map (analyzeInBatch scorer) (drop (i + batchSize) js)
                 = map (analyzeInBatch scorer) (drop i js)"
      by (metis map_append)
    with step ih show ?thesis by simp
  next
    case False
    then show ?thesis by (subst processBatches.simps) simp
  qed
qed

lemma processBatches_error:
  "error (processBatches scorer js i task) = error task"
proof (induction scorer js i task rule: processBatches.induct)
  case (1 scorer js i task)
  show ?case
  proof (cases "i < length js")
    case True
    let ?pushed = "jobs task @ map (analyzeInBatch scorer) (take batchSize (drop i js))"
    let ?task' = "task\<lparr>jobs := ?pushed, processedJobs := length ?pushed,
        progress := mathRound (rat_of_nat (length ?pushed) / rat_of_nat (length js) * 100)\<rparr>"
    have step: "processBatches scorer js i task = processBatches scorer js (i + batchSize) ?task'"
      using True by (subst processBatches.simps) (simp add: Let_def)
    have "error (processBatches scorer js (i + batchSize) ?task') = error ?task'"
      using True by (rule "1.IH") (rule refl)+
    with step show ?thesis by simp
  next
    case False
    then show ?thesis by (subst processBatches.simps) simp
  qed
qed

lemma analyzeInBatch_cases:
  "analyzeInBatch (\<lambda>job. Inr (analyzeJobWithATS outcome resumeData job weights)) job =
     (case outcome resumeData job weights of
        Inl message \<Rightarrow> Scored job None None
      | Inr None \<Rightarrow> Scored job None None
      | Inr (Some d) \<Rightarrow> Scored job (overall_match_percentage d) (Some (summarize d)))"
  by (simp add: analyzeInBatch_def analyzeJobWithATS_def split: sum.splits option.splits)

lemma processJobSearch_scored:
  assumes "tasks store taskId = Some task0"
    and "searchOutcome world = Inr allJobs" and "allJobs \<noteq> []"
    and "\<not> falsyStr resumeId" and "resumeOutcome world = Inr (Some resumeData)"
  shows "\<exists>task. tasks (processJobSearch rt world taskId keyword searchLocation resumeId atsWeights
                    company store) taskId = Some task
           \<and> status task = ''completed'' \<and> completed task \<and> atsAnalyzed task = Some True
           \<and> error task = error task0
           \<and> jobs task = sortByScore (jobs task0 @
                 map (analyzeInBatch (\<lambda>job. Inr (analyzeJobWithATS (atsOutcome world)
                        resumeData job atsWeights))) (take 20 allJobs))"
proof -
  let ?scorer = "\<lambda>job. Inr (analyzeJobWithATS (atsOutcome world) resumeData job atsWeights)"
  let ?task2 = "task0\<lparr>statusMessage := Some ''Searching jobs via JSearch API...'',
                       totalJobs := length allJobs, status := ''analyzing'',
                       statusMessage := Some (''Found ''
                         @ numToString rt (rat_of_nat (length allJobs)) @ '' jobs'')\<rparr>"
  let ?task3 = "processBatches ?scorer (take 20 allJobs) 0 ?task2"
  let ?task4 = "?task3\<lparr>jobs := sortByScore (jobs ?task3), status := ''completed'',
                        completed := True, progress := 100, atsAnalyzed := Some True\<rparr>"
  have run: "processJobSearch rt world taskId keyword searchLocation resumeId atsWeights company store
      = setTimeoutDelete taskId RETENTION_MS (store\<lparr>tasks := (tasks store)(taskId \<mapsto> ?task4)\<rparr>)"
    using assms by (simp add: processJobSearch_def Let_def)
  have "jobs ?task3 = jobs ?task2 @ map (analyzeInBatch ?scorer) (drop 0 (take 20 allJobs))"
    by (rule processBatches_jobs)
  then have j: "jobs ?task4 = sortByScore (jobs task0 @ map (analyzeInBatch ?scorer) (take 20 allJobs))"
    by simp
  have e: "error ?task4 = error task0"
    by (simp add: processBatches_error)
  have "tasks (processJobSearch rt world taskId keyword searchLocation resumeId atsWeights
                    company store) taskId = Some ?task4"
    unfolding run by (simp add: setTimeoutDelete_def)
  moreover have "status ?task4 = ''completed'' \<and> completed ?task4 \<and> atsAnalyzed ?task4 = Some True"
    by simp
  ultimately show ?thesis using j e by blast
qed


lemma set_sortByScore: "set (sortByScore es) = set es"
  by (simp add: sortByScore_def)

lemma length_sortByScore: "length (sortByScore es) = length es"
  by (simp add: sortByScore_def)

text \<open>
  Claim C8. When the search returns postings and the resume is found, the routine ends
  with the task completed, whatever the analysis of each posting does: the results hold
  one entry for each of the (at most 20) postings analysed, a posting whose analysis
  fails (the call throws or returns nothing) is recorded with a null score, and every
  posting whose analysis succeeds is recorded with its score.
\<close>

theorem scoring_failure_isolated:
  assumes "tasks store taskId = Some task0" and "jobs task0 = []"
    and "searchOutcome world = Inr allJobs" and "allJobs \<noteq> []"
    and "\<not> falsyStr resumeId" and "resumeOutcome world = Inr (Some resumeData)"
  shows "\<exists>task. tasks (processJobSearch rt world taskId keyword searchLocation resumeId atsWeights
                    company store) taskId = Some task
           \<and> status task = ''completed'' \<and> error task = error task0
           \<and> length (jobs task) = length (take 20 allJobs)
           \<and> (\<forall>job \<in> set (take 20 allJobs).
                 (\<forall>d. atsOutcome world resumeData job atsWeights \<noteq> Inr (Some d))
                   \<longrightarrow> Scored job None None \<in> set (jobs task))
           \<and> (\<forall>job \<in> set (take 20 allJobs). \<forall>d.
                 atsOutcome world resumeData job atsWeights = Inr (Some d)
                   \<longrightarrow> Scored job (overall_match_percentage d) (Some (summarize d))
                         \<in> set (jobs task))"
proof -
  let ?scorer = "\<lambda>job. Inr (analyzeJobWithATS (atsOutcome world) resumeData job atsWeights)"
  from processJobSearch_scored [OF assms(1) assms(3-6), of rt keyword searchLocation atsWeights company]
  obtain task where t:
    "tasks (processJobSearch rt world taskId keyword searchLocation resumeId atsWeights
              company store) taskId = Some task"
    "status task = ''completed''" "error task = error task0"
    "jobs task = sortByScore (jobs task0 @ map (analyzeInBatch ?scorer) (take 20 allJobs))"
    by blast
  from t(4) assms(2)
  have js: "set (jobs task) = analyzeInBatch ?scorer ` set (take 20 allJobs)"
    and len: "length (jobs task) = length (take 20 allJobs)"
    by (simp_all add: set_sortByScore length_sortByScore)
  have failing: "Scored job None None \<in> set (jobs task)"
    if "job \<in> set (take 20 allJobs)"
      and "\<forall>d. atsOutcome world resumeData job atsWeights \<noteq> Inr (Some d)" for job
  proof -
    from that(2) have "analyzeInBatch ?scorer job = Scored job None None"
      by (simp add: analyzeInBatch_cases split: sum.splits option.splits)
    with that(1) js show ?thesis by force
  qed
  have scored: "Scored job (overall_match_percentage d) (Some (summarize d)) \<in> set (jobs task)"
    if "job \<in> set (take 20 allJobs)"
      and "atsOutcome world resumeData job atsWeights = Inr (Some d)" for job d
  proof -
    from that(2) have "analyzeInBatch ?scorer job
        = Scored job (overall_match_percentage d) (Some (summarize d))"
      by (simp add: analyzeInBatch_cases)
    with that(1) js show ?thesis by force
  qed
  from t(1-3) len failing scored show ?thesis by blast
qed

lemma fiveJobs_result:
  "sortByScore (map (analyzeInBatch (\<lambda>job. Inr (analyzeJobWithATS (atsOutcome fiveJobsWorld) () job None)))
     (take 20 [1, 2, 3, 4, 5]))
   = [Scored 5 (Some 50) (Some (summarize (sampleData 50))),
      Scored 4 (Some 40) (Some (summarize (sampleData 40))),
      Scored 3 (Some 30) (Some (summarize (sampleData 30))),
      Scored 1 (Some 10) (Some (summarize (sampleData 10))),
      Scored 2 None None]"
  by (simp add: sortByScore_def scoreOrZero_def orZero_def analyzeInBatch_def analyzeJobWithATS_def
       fiveJobsWorld_def sampleData_def)


theorem scoring_failure_isolated_witness:
  "tasks sampleStore ''t1'' = Some (newTask 0 ''u1'')
   \<and> jobs (newTask 0 ''u1'' :: nat Task) = []
   \<and> searchOutcome fiveJobsWorld = Inr [1, 2, 3, 4, 5]
   \<and> [1, 2, 3, 4, 5 :: nat] \<noteq> []
   \<and> \<not> falsyStr (Some ''r1'')
   \<and> resumeOutcome fiveJobsWorld = Inr (Some ())
   \<and> atsOutcome fiveJobsWorld () 2 None = Inl ''timeout of 30000ms exceeded''
   \<and> (\<exists>task. tasks (processJobSearch plainRuntime fiveJobsWorld ''t1'' ''dev'' ''India''
                   (Some ''r1'') None None sampleStore) ''t1'' = Some task
          \<and> status task = ''completed'' \<and> error task = None \<and> length (jobs task) = 5
          \<and> Scored 2 None None \<in> set (jobs task)
          \<and> Scored 1 (Some 10) (Some (summarize (sampleData 10))) \<in> set (jobs task)
          \<and> Scored 3 (Some 30) (Some (summarize (sampleData 30))) \<in> set (jobs task)
          \<and> Scored 4 (Some 40) (Some (summarize (sampleData 40))) \<in> set (jobs task)
          \<and> Scored 5 (Some 50) (Some (summarize (sampleData 50))) \<in> set (jobs task))"
proof -
  have h1: "tasks sampleStore ''t1'' = Some (newTask 0 ''u1'')"
    by (simp add: sampleStore_def)
  have h2: "jobs (newTask 0 ''u1'' :: nat Task) = []"
    by (simp add: newTask_def)
  have h3: "searchOutcome fiveJobsWorld = Inr [1, 2, 3, 4, 5]"
    by (simp add: fiveJobsWorld_def)
  have h4: "[1, 2, 3, 4, 5 :: nat] \<noteq> []" by simp
  have h5: "\<not> falsyStr (Some ''r1'')" by (simp add: falsyStr_def)
  have h6: "resumeOutcome fiveJobsWorld = Inr (Some ())"
    by (simp add: fiveJobsWorld_def)
  have out: "atsOutcome fiveJobsWorld () j None
      = (if j = 2 then Inl ''timeout of 30000ms exceeded''
         else Inr (Some (sampleData (10 * rat_of_nat j))))" for j
    by (simp add: fiveJobsWorld_def)
  from scoring_failure_isolated [OF h1 h2 h3 h4 h5 h6, of plainRuntime "''dev''" "''India''" None None]
  obtain task where t:
    "tasks (processJobSearch plainRuntime fiveJobsWorld ''t1'' ''dev'' ''India''
              (Some ''r1'') None None sampleStore) ''t1'' = Some task"
    "status task = ''completed''" "error task = error (newTask 0 ''u1'' :: nat Task)"
    "length (jobs task) = length (take 20 [1, 2, 3, 4, 5 :: nat])"
    "\<forall>job \<in> set (take 20 [1, 2, 3, 4, 5]).
       (\<forall>d. atsOutcome fiveJobsWorld () job None \<noteq> Inr (Some d))
         \<longrightarrow> Scored job None None \<in> set (jobs task)"
    "\<forall>job \<in> set (take 20 [1, 2, 3, 4, 5]). \<forall>d.
       atsOutcome fiveJobsWorld () job None = Inr (Some d)
         \<longrightarrow> Scored job (overall_match_percentage d) (Some (summarize d)) \<in> set (jobs task)"
    by blast
  from t(5) have f2: "Scored 2 None None \<in> set (jobs task)"
    by (simp add: out)
  from t(6) have s1: "Scored 1 (Some 10) (Some (summarize (sampleData 10))) \<in> set (jobs task)"
    and s3: "Scored 3 (Some 30) (Some (summarize (sampleData 30))) \<in> set (jobs task)"
    and s4: "Scored 4 (Some 40) (Some (summarize (sampleData 40))) \<in> set (jobs task)"
    and s5: "Scored 5 (Some 50) (Some (summarize (sampleData 50))) \<in> set (jobs task)"
    by (simp_all add: out sampleData_def)
  from t(3) have e: "error task = None" by (simp add: newTask_def)
  from t(4) have l: "length (jobs task) = 5" by simp
  have o2: "atsOutcome fiveJobsWorld () 2 None = Inl ''timeout of 30000ms exceeded''"
    by (simp add: out)
  from h1 h2 h3 h4 h5 h6 o2 t(1) t(2) e l f2 s1 s3 s4 s5 show ?thesis by blast
qed

text \<open>Timers: a task without a timer stays, a task with a due timer goes.\<close>

lemma foldl_delete_other:
  "\<forall>(t, i) \<in> set due. i \<noteq> taskId \<Longrightarrow>
     foldl (\<lambda>m (t, i). m(i := None)) m due taskId = m taskId"
  by (induction due arbitrary: m) auto

lemma foldl_delete_hit:
  "taskId \<in> snd ` set due \<Longrightarrow> foldl (\<lambda>m (t, i). m(i := None)) m due taskId = None"
proof (induction due arbitrary: m)
  case Nil
  then show ?case by simp
next
  case (Cons p due)
  obtain t' i where p: "p = (t', i)" by (cases p)
  show ?case
  proof (cases "taskId \<in> snd ` set due")
    case True
    then have "foldl (\<lambda>m (t, i). m(i := None)) (m(i := None)) due taskId = None"
      by (rule Cons.IH)
    then show ?thesis by (simp only: p foldl_Cons prod.case)
  next
    case False
    with Cons.prems p have hit: "i = taskId" by auto
    from False have "\<forall>(t, j) \<in> set due. j \<noteq> taskId" by force
    then have "foldl (\<lambda>m (t, i). m(i := None)) (m(i := None)) due taskId = (m(i := None)) taskId"
      by (rule foldl_delete_other)
    then have "foldl (\<lambda>m (t, i). m(i := None)) (m(i := None)) due taskId = None"
      using hit by (simp only: fun_upd_same)
    then show ?thesis by (simp only: p foldl_Cons prod.case)
  qed
qed

lemma advance_keeps_untimed:
  assumes "\<forall>(t, i) \<in> set (timers store). i \<noteq> taskId"
  shows "tasks (advance elapsed store) taskId = tasks store taskId"
proof -
  have "\<forall>(t, i) \<in> set (filter (\<lambda>(t, taskId). t \<le> clock store + elapsed) (timers store)). i \<noteq> taskId"
    using assms by auto
  then show ?thesis
    by (simp add: advance_def Let_def foldl_delete_other)
qed

lemma advance_runs_due_timer:
  assumes "(t, taskId) \<in> set (timers store)" and "t \<le> clock store + elapsed"
  shows "tasks (advance elapsed store) taskId = None"
proof -
  have "(t, taskId) \<in> set (filter (\<lambda>(t, taskId). t \<le> clock store + elapsed) (timers store))"
    using assms by simp
  then have "taskId \<in> snd ` set (filter (\<lambda>(t, taskId). t \<le> clock store + elapsed) (timers store))"
    by force
  then show ?thesis
    by (simp add: advance_def Let_def foldl_delete_hit)
qed

lemma failTask_timers: "timers (failTask taskId message store) = timers store"
  by (simp add: failTask_def split: option.splits)

text \<open>The only call of \<^verbatim>\<open>setTimeout\<close> is at the end of the scored path.\<close>

lemma processJobSearch_timers:
  "timers (processJobSearch rt world taskId keyword searchLocation resumeId atsWeights company store)
     = (if (\<exists>task0 allJobs resumeData. tasks store taskId = Some task0
              \<and> searchOutcome world = Inr allJobs \<and> allJobs \<noteq> []
              \<and> \<not> falsyStr resumeId \<and> resumeOutcome world = Inr (Some resumeData))
        then timers store @ [(clock store + RETENTION_MS, taskId)]
        else timers store)"
  by (auto simp: processJobSearch_def Let_def failTask_timers setTimeoutDelete_def
           split: option.splits sum.splits)

lemma processJobSearch_keeps_task:
  assumes "tasks store taskId = Some task0"
  shows "tasks (processJobSearch rt world taskId keyword searchLocation resumeId atsWeights
           company store) taskId \<noteq> None"
  using assms
  by (auto simp: processJobSearch_def Let_def failTask_def setTimeoutDelete_def
           split: option.splits sum.splits)


text \<open>On the scored path the task is gone once the retention window has passed, and a
  poll then answers 404.\<close>

lemma scored_task_purged_after_retention:
  assumes "tasks store taskId = Some task0"
    and "searchOutcome world = Inr allJobs" and "allJobs \<noteq> []"
    and "\<not> falsyStr resumeId" and "resumeOutcome world = Inr (Some resumeData)"
    and "RETENTION_MS \<le> elapsed"
  shows "pollJobSearch taskId (advance elapsed
           (processJobSearch rt world taskId keyword searchLocation resumeId atsWeights company store))
         = NotFound404 ''Task not found or expired''"
proof -
  let ?s = "processJobSearch rt world taskId keyword searchLocation resumeId atsWeights company store"
  have "timers ?s = timers store @ [(clock store + RETENTION_MS, taskId)]"
    using assms(1-5) by (simp add: processJobSearch_timers)
  then have t: "(clock store + RETENTION_MS, taskId) \<in> set (timers ?s)"
    by simp
  have "clock ?s = clock store"
    using assms(1-5) by (simp add: processJobSearch_def Let_def setTimeoutDelete_def)
  with assms(6) have "clock store + RETENTION_MS \<le> clock ?s + elapsed"
    by simp
  with t have "tasks (advance elapsed ?s) taskId = None"
    by (rule advance_runs_due_timer)
  then show ?thesis by (simp add: pollJobSearch_def)
qed

text \<open>
  Claim C9 fails on the code for every path but the scored one. Here no posting is
  found: the task completes at the early \<^verbatim>\<open>return\<close>, no timer is set, and however much
  time passes a poll still finds the completed task.
\<close>

theorem zero_result_task_never_purged:
  "\<exists>body. pollJobSearch ''t1'' (advance elapsed
             (processJobSearch plainRuntime zeroJobsWorld ''t1'' ''dev'' ''India'' (Some ''r1'')
                None None sampleStore)) = Ok200 body
          \<and> pollStatus body = ''completed'' \<and> pollCompleted body \<and> pollJobs body = []"
proof -
  let ?s = "processJobSearch plainRuntime zeroJobsWorld ''t1'' ''dev'' ''India'' (Some ''r1'')
              None None sampleStore"
  have "timers ?s = timers sampleStore"
    by (simp add: processJobSearch_timers zeroJobsWorld_def)
  then have "timers ?s = []"
    by (simp add: sampleStore_def)
  then have "\<forall>(t, i) \<in> set (timers ?s). i \<noteq> ''t1''"
    by simp
  then have keep: "tasks (advance elapsed ?s) ''t1'' = tasks ?s ''t1''"
    by (rule advance_keeps_untimed)
  have "\<exists>task. tasks ?s ''t1'' = Some task \<and> status task = ''completed'' \<and> completed task
          \<and> jobs task = []"
    by (simp add: processJobSearch_def Let_def zeroJobsWorld_def sampleStore_def newTask_def)
  then obtain task where "tasks ?s ''t1'' = Some task" "status task = ''completed''"
    "completed task" "jobs task = []"
    by blast
  with keep show ?thesis
    by (simp add: pollJobSearch_def)
qed

text \<open>The same holds when the search itself fails: the task is marked failed and stays.\<close>

lemma failed_task_never_purged:
  assumes "tasks store taskId = Some task0"
    and "\<forall>(t, i) \<in> set (timers store). i \<noteq> taskId"
    and "searchOutcome world = Inl message"
  shows "\<exists>body. pollJobSearch taskId (advance elapsed
             (processJobSearch rt world taskId keyword searchLocation resumeId atsWeights company
                store)) = Ok200 body
          \<and> pollStatus body = ''failed'' \<and> pollCompleted body \<and> pollError body = Some message"
proof -
  let ?s = "processJobSearch rt world taskId keyword searchLocation resumeId atsWeights company store"
  have "timers ?s = timers store"
    using assms(3) by (simp add: processJobSearch_timers)
  with assms(2) have "\<forall>(t, i) \<in> set (timers ?s). i \<noteq> taskId"
    by simp
  then have keep: "tasks (advance elapsed ?s) taskId = tasks ?s taskId"
    by (rule advance_keeps_untimed)
  have "\<exists>task. tasks ?s taskId = Some task \<and> status task = ''failed'' \<and> completed task
          \<and> error task = Some message"
    using assms(1,3) by (simp add: processJobSearch_def Let_def failTask_def)
  then obtain task where "tasks ?s taskId = Some task" "status task = ''failed''"
    "completed task" "error task = Some message"
    by blast
  with keep show ?thesis
    by (simp add: pollJobSearch_def)
qed

end
